theory Spec2Isabelle
  imports Main
begin

section \<open>Data model\<close>

text \<open>
  The sources are three TypeScript/React modules: the variant dispatcher
  \<^verbatim>\<open>renderFormField\<close> with the JSON-builder's \<^verbatim>\<open>FormRenderer\<close>
  (src/screens/render-form-field/index.tsx), the builder preview \<^verbatim>\<open>renderFormFields\<close>
  (src/app/layout.tsx) and the JSON editor \<^verbatim>\<open>FormJsonBuilder\<close>
  (src/screens/form-json-builder/index.tsx).

  A rendered React element is modelled by the data it is built from: the props that the
  JSX passes and, for every event-handler prop, the sequence of calls the handler makes on
  its collaborators (the setters of the state bag, \<^verbatim>\<open>form.setValue\<close> and
  \<^verbatim>\<open>field.onChange\<close>). CSS class names and icons are left out. Strings are
  ASCII, numbers are integers, a \<^verbatim>\<open>Date\<close> is a timestamp and a \<^verbatim>\<open>File\<close>
  is its name.
\<close>

type_synonym date = nat
type_synonym jsFile = string

text \<open>
  The value of \<^verbatim>\<open>field.variant\<close>. The TypeScript type is \<^verbatim>\<open>string\<close>; the
  second constructor is the one other value that \<^verbatim>\<open>convertJsonFieldToFormField\<close>
  can store there: a member that its lookup table inherits from
  \<^verbatim>\<open>Object.prototype\<close> (see \<open>typeToVariant_lookup\<close> below).
\<close>

datatype jsVariant = Str string | Inherited string

text \<open>
  Modelled from the spec: the declaration of \<^verbatim>\<open>FormFieldType\<close> (module
  \<^verbatim>\<open>@/types\<close>) is not among the sources. The fields are the ones the sources
  read or write (\<open>variant\<close> to \<open>rowIndex\<close>, \<open>minF\<close>, \<open>maxF\<close>, \<open>stepF\<close>),
  and from the spec's data model the declared \<open>defaultValue\<close> of a Slider and
  \<open>length\<close> of an Input OTP. An absent property is \<open>None\<close>. The members
  \<^verbatim>\<open>setValue\<close>, \<^verbatim>\<open>onChange\<close> and \<^verbatim>\<open>onSelect\<close> are functions; a
  call of \<^verbatim>\<open>field.onChange\<close> is recorded as \<open>FieldOnChange\<close> below.
\<close>

record FormFieldType =
  variant :: jsVariant
  typeF :: string
  label :: "string option"
  name :: "string option"
  placeholder :: "string option"
  required :: "bool option"
  description :: "string option"
  options :: "(string \<times> string) list option"
  disabled :: bool
  valueF :: string
  checkedF :: bool
  rowIndex :: nat
  minF :: "int option"
  maxF :: "int option"
  stepF :: "int option"
  defaultValue :: "int option"
  lengthF :: "nat option"

text \<open>
  The state bag, third parameter of \<^verbatim>\<open>renderFormField\<close>: the values of the
  transient slots. Its setters are opaque to the dispatcher; a call of one is
  recorded as a \<open>call\<close> and interpreted by the caller that supplied the bag.
\<close>

record stateBag =
  checked :: bool
  smartDatetime :: "date option"
  tagsValue :: "string list"
  canvasRef :: "nat option"
  valueS :: "string option"
  date :: "date option"
  selectedValues :: "string list"
  countryName :: string
  stateName :: string
  files :: "jsFile list option"
  datetime :: "date option"

datatype setValueOptions = NoOptions | ValidateAndDirty

datatype formValue = FString string | FStrings "string list"

datatype call =
    SetChecked bool
  | SetSmartDatetime date
  | SetTagsValue "string list"
  | SetValue string
  | SetDate "date option"
  | SetSelectedValues "string list"
  | SetCountryName string
  | SetStateName string
  | SetFiles "jsFile list option"
  | SetDatetime date
  | FormSetValue "string option" formValue setValueOptions
  | FieldOnChange string

datatype exn = TypeError | CloneElementOfNull

text \<open>One \<^verbatim>\<open>CommandItem\<close> of the Combobox: value, key, onSelect, check mark shown.\<close>

record commandItem =
  itemValue :: string
  itemKey :: string
  onSelect :: "call list"
  checkShown :: bool

text \<open>
  The interactive control of each case of the dispatcher, named after its JSX component,
  with the props in source order.
\<close>

datatype widget =
    Checkbox bool "bool \<Rightarrow> call list" bool
      \<comment> \<open>checked, onCheckedChange, disabled\<close>
  | Combobox "string option" "commandItem list"
      \<comment> \<open>text of the trigger button (\<open>None\<close>: undefined), the items\<close>
  | DatePicker "date option" "date option \<Rightarrow> call list"
      \<comment> \<open>selected (also the button text), onSelect\<close>
  | DatetimePicker FormFieldType "date option" "date option \<Rightarrow> call list"
      \<comment> \<open>the spread field, value, onChange\<close>
  | FileUploader "jsFile list option" "jsFile list option \<Rightarrow> call list" nat nat "string list"
      \<comment> \<open>value, onValueChange, maxFiles, maxSize, names of the listed files\<close>
  | Input "string option" bool string
      \<comment> \<open>placeholder, disabled, type\<close>
  | InputOTP nat "nat list list"
      \<comment> \<open>maxLength, the slot indices of each group (a separator between groups)\<close>
  | LocationSelector "string option \<Rightarrow> call list" "string option \<Rightarrow> call list"
      \<comment> \<open>onCountryChange, onStateChange, each given the chosen name if any\<close>
  | MultiSelector "string list" "string list \<Rightarrow> call list" "string list"
      \<comment> \<open>values, onValuesChange, the values of the items\<close>
  | Select "string \<Rightarrow> call list" string "string list"
      \<comment> \<open>onValueChange, defaultValue, the values of the items\<close>
  | Slider int int int "int list" "int list \<Rightarrow> exn + call list"
      \<comment> \<open>min, max, step, defaultValue, onValueChange\<close>
  | SignatureInput "nat option" "string option \<Rightarrow> call list"
      \<comment> \<open>canvasRef, onSignatureChange\<close>
  | SmartDatetimeInput "date option" "date \<Rightarrow> call list"
      \<comment> \<open>value, onValueChange\<close>
  | Switch bool "bool \<Rightarrow> call list"
      \<comment> \<open>checked, onCheckedChange\<close>
  | TagsInput "string list" "string list \<Rightarrow> call list"
      \<comment> \<open>value, onValueChange\<close>
  | Textarea "string option"
      \<comment> \<open>placeholder\<close>
  | PasswordInput string
      \<comment> \<open>value\<close>
  | PhoneInput string
      \<comment> \<open>defaultCountry\<close>

text \<open>
  The text of a \<^verbatim>\<open>FormDescription\<close>: the field's description, followed in the
  Slider case by the selected value, min, max and step.
\<close>

datatype descr =
    Plain "string option"
  | SliderText "string option" string int int int

text \<open>
  The props that \<^verbatim>\<open>React.cloneElement\<close> adds to an element: the field object of
  the form library, identified by the \<^verbatim>\<open>name\<close> it was registered under.
\<close>

datatype binding = Unbound | BoundTo "string option"

text \<open>The \<^verbatim>\<open>FormItem\<close> that a case of the dispatcher returns.\<close>

record element =
  itemLabel :: "string option"
  requiredMark :: bool
  itemDescription :: descr
  formMessage :: bool
  control :: widget
  bound :: binding

section \<open>The variant dispatcher\<close>

definition languages :: "(string \<times> string) list" where
  "languages =
    [(''English'', ''en''), (''French'', ''fr''), (''German'', ''de''),
     (''Spanish'', ''es''), (''Portuguese'', ''pt''), (''Russian'', ''ru''),
     (''Japanese'', ''ja''), (''Korean'', ''ko''), (''Chinese'', ''zh'')]"

text \<open>JavaScript truthiness of an optional string: defined and not empty.\<close>

definition truthy :: "string option \<Rightarrow> bool" where
  "truthy v = (case v of None \<Rightarrow> False | Some s \<Rightarrow> s \<noteq> [])"

text \<open>\<^verbatim>\<open>x || d\<close> on an optional string and on an optional number.\<close>

definition orElse :: "string option \<Rightarrow> string \<Rightarrow> string" where
  "orElse v d = (case v of None \<Rightarrow> d | Some s \<Rightarrow> if s = [] then d else s)"

definition orNum :: "int option \<Rightarrow> int \<Rightarrow> int" where
  "orNum v d = (case v of None \<Rightarrow> d | Some n \<Rightarrow> if n = 0 then d else n)"

text \<open>
  The frame every case shares: label, the mark \<^verbatim>\<open>{field.required && '*'}\<close> where
  the case has it (\<open>mark\<close>), description, \<^verbatim>\<open>FormMessage\<close> where the case has it
  (\<open>msg\<close>), and the control.
\<close>

definition formItem :: "FormFieldType \<Rightarrow> bool \<Rightarrow> bool \<Rightarrow> widget \<Rightarrow> element" where
  "formItem field mark msg w =
    \<lparr> itemLabel = label field,
      requiredMark = (mark \<and> required field = Some True),
      itemDescription = Plain (description field),
      formMessage = msg,
      control = w,
      bound = Unbound \<rparr>"

text \<open>\<^verbatim>\<open>Number.prototype.toString\<close> on an integer: its decimal numeral.\<close>

fun digits :: "nat \<Rightarrow> string" where
  "digits n = (if n < 10 then [''0123456789'' ! n] else digits (n div 10) @ [''0123456789'' ! (n mod 10)])"

declare digits.simps [simp del]

definition toString :: "int \<Rightarrow> string" where
  "toString i = (if i < 0 then CHR ''-'' # digits (nat (- i)) else digits (nat i))"

subsection \<open>The cases of the switch\<close>

definition caseCheckbox :: "FormFieldType \<Rightarrow> stateBag \<Rightarrow> element" where
  "caseCheckbox field state =
    formItem field True True
      (Checkbox (checked state) (\<lambda>_. [SetChecked (\<not> checked state)]) (disabled field))"

definition caseCombobox :: "FormFieldType \<Rightarrow> stateBag \<Rightarrow> element" where
  "caseCombobox field state =
    formItem field True True
      (Combobox
        (if truthy (valueS state)
         then map_option fst (find (\<lambda>language. Some (snd language) = valueS state) languages)
         else Some ''Select language'')
        (map (\<lambda>language.
               \<lparr> itemValue = fst language,
                 itemKey = snd language,
                 onSelect = [SetValue (snd language),
                             FormSetValue (name field) (FString (snd language)) NoOptions],
                 checkShown = (Some (snd language) = valueS state) \<rparr>)
             languages))"

text \<open>
  The Calendar's \<^verbatim>\<open>disabled\<close> predicate compares with the current time and is
  left out.
\<close>

definition caseDatePicker :: "FormFieldType \<Rightarrow> stateBag \<Rightarrow> element" where
  "caseDatePicker field state =
    formItem field True True (DatePicker (date state) (\<lambda>d. [SetDate d]))"

definition caseDatetimePicker :: "FormFieldType \<Rightarrow> stateBag \<Rightarrow> element" where
  "caseDatetimePicker field state =
    formItem field True True
      (DatetimePicker field (datetime state)
        (\<lambda>d. case d of None \<Rightarrow> [] | Some t \<Rightarrow> [SetDatetime t]))"

text \<open>
  \<^verbatim>\<open>files || null\<close> is \<^verbatim>\<open>files\<close>: an array, even an empty one, is truthy.
\<close>

definition caseFileInput :: "FormFieldType \<Rightarrow> stateBag \<Rightarrow> element" where
  "caseFileInput field state =
    formItem field True False
      (FileUploader (files state) (\<lambda>fs. [SetFiles fs]) 5 (1024 * 1024 * 4)
        (case files state of None \<Rightarrow> [] | Some fs \<Rightarrow> if length fs > 0 then fs else []))"

definition caseInput :: "FormFieldType \<Rightarrow> stateBag \<Rightarrow> element" where
  "caseInput field state =
    formItem field True True (Input (placeholder field) (disabled field) (typeF field))"

definition caseInputOTP :: "FormFieldType \<Rightarrow> stateBag \<Rightarrow> element" where
  "caseInputOTP field state =
    formItem field True True (InputOTP 6 [[0, 1, 2], [3, 4, 5]])"

definition caseLocationInput :: "FormFieldType \<Rightarrow> stateBag \<Rightarrow> element" where
  "caseLocationInput field state =
    formItem field True True
      (LocationSelector
        (\<lambda>country.
           [SetCountryName (orElse country []),
            FormSetValue (name field)
              (FStrings [orElse country [], orElse (Some (stateName state)) []]) NoOptions])
        (\<lambda>stateData.
           [SetStateName (orElse stateData []),
            FormSetValue (name field)
              (FStrings [orElse (Some (countryName state)) [], orElse stateData []]) NoOptions]))"

definition caseMultiSelect :: "FormFieldType \<Rightarrow> stateBag \<Rightarrow> element" where
  "caseMultiSelect field state =
    formItem field False True
      (MultiSelector (selectedValues state)
        (\<lambda>newValues.
           [SetSelectedValues newValues,
            FormSetValue (name field) (FStrings newValues) ValidateAndDirty])
        [''React'', ''Vue'', ''Svelte''])"

definition caseSelect :: "FormFieldType \<Rightarrow> stateBag \<Rightarrow> element" where
  "caseSelect field state =
    formItem field True True
      (Select (\<lambda>v. [FieldOnChange v]) ''m@example.com''
        [''m@example.com'', ''m@google.com'', ''m@support.com''])"

text \<open>
  \<^verbatim>\<open>value[0].toString()\<close> throws a TypeError on an empty array.
\<close>

definition caseSlider :: "FormFieldType \<Rightarrow> stateBag \<Rightarrow> element" where
  "caseSlider field state =
    (let min = orNum (minF field) 0;
         max = orNum (maxF field) 100;
         step = orNum (stepF field) 1;
         defaultValue = 5
     in (formItem field False True
          (Slider min max step [defaultValue]
            (\<lambda>value. case value of
                        [] \<Rightarrow> Inl TypeError
                      | v # _ \<Rightarrow> Inr [SetValue (toString v)])))
        \<lparr> itemDescription :=
            SliderText (description field) (orElse (valueS state) (toString defaultValue))
              min max step \<rparr>)"

definition caseSignatureInput :: "FormFieldType \<Rightarrow> stateBag \<Rightarrow> element" where
  "caseSignatureInput field state =
    formItem field False True
      (SignatureInput (canvasRef state)
        (\<lambda>signature. case signature of
                        None \<Rightarrow> []
                      | Some s \<Rightarrow> if s = [] then [] else [FieldOnChange s]))"

definition caseSmartDatetimeInput :: "FormFieldType \<Rightarrow> stateBag \<Rightarrow> element" where
  "caseSmartDatetimeInput field state =
    formItem field False True
      (SmartDatetimeInput (smartDatetime state) (\<lambda>newDate. [SetSmartDatetime newDate]))"

definition caseSwitch :: "FormFieldType \<Rightarrow> stateBag \<Rightarrow> element" where
  "caseSwitch field state =
    formItem field True False
      (Switch (checked state) (\<lambda>_. [SetChecked (\<not> checked state)]))"

text \<open>
  The Tags Input case also computes \<^verbatim>\<open>currentTags\<close> from \<^verbatim>\<open>form.watch\<close>
  and never uses it.
\<close>

definition caseTagsInput :: "FormFieldType \<Rightarrow> stateBag \<Rightarrow> element" where
  "caseTagsInput field state =
    formItem field False True
      (TagsInput (tagsValue state)
        (\<lambda>newTags.
           [SetTagsValue newTags,
            FormSetValue (name field) (FStrings newTags) ValidateAndDirty]))"

definition caseTextarea :: "FormFieldType \<Rightarrow> stateBag \<Rightarrow> element" where
  "caseTextarea field state = formItem field False True (Textarea (placeholder field))"

definition casePassword :: "FormFieldType \<Rightarrow> stateBag \<Rightarrow> element" where
  "casePassword field state = formItem field False True (PasswordInput ''password'')"

definition casePhone :: "FormFieldType \<Rightarrow> stateBag \<Rightarrow> element" where
  "casePhone field state = formItem field False True (PhoneInput ''TR'')"

subsection \<open>renderFormField\<close>

text \<open>
  The switch compares \<^verbatim>\<open>field.variant\<close> with each case label by strict equality;
  \<open>None\<close> is the \<^verbatim>\<open>null\<close> of the default branch. The parameter
  \<^verbatim>\<open>form\<close> is used only through the calls recorded in the handlers.
\<close>

definition renderFormField :: "FormFieldType \<Rightarrow> stateBag \<Rightarrow> element option" where
  "renderFormField field state =
    (case variant field of
       Inherited _ \<Rightarrow> None
     | Str v \<Rightarrow>
         if v = ''Checkbox'' then Some (caseCheckbox field state)
         else if v = ''Combobox'' then Some (caseCombobox field state)
         else if v = ''Date Picker'' then Some (caseDatePicker field state)
         else if v = ''Datetime Picker'' then Some (caseDatetimePicker field state)
         else if v = ''File Input'' then Some (caseFileInput field state)
         else if v = ''Input'' then Some (caseInput field state)
         else if v = ''Input OTP'' then Some (caseInputOTP field state)
         else if v = ''Location Input'' then Some (caseLocationInput field state)
         else if v = ''Multi Select'' then Some (caseMultiSelect field state)
         else if v = ''Select'' then Some (caseSelect field state)
         else if v = ''Slider'' then Some (caseSlider field state)
         else if v = ''Signature Input'' then Some (caseSignatureInput field state)
         else if v = ''Smart Datetime Input'' then Some (caseSmartDatetimeInput field state)
         else if v = ''Switch'' then Some (caseSwitch field state)
         else if v = ''Tags Input'' then Some (caseTagsInput field state)
         else if v = ''Textarea'' then Some (caseTextarea field state)
         else if v = ''Password'' then Some (casePassword field state)
         else if v = ''Phone'' then Some (casePhone field state)
         else None)"

text \<open>The case labels of the switch, in source order.\<close>

definition recognized :: "string list" where
  "recognized =
    [''Checkbox'', ''Combobox'', ''Date Picker'', ''Datetime Picker'', ''File Input'',
     ''Input'', ''Input OTP'', ''Location Input'', ''Multi Select'', ''Select'', ''Slider'',
     ''Signature Input'', ''Smart Datetime Input'', ''Switch'', ''Tags Input'', ''Textarea'',
     ''Password'', ''Phone'']"

subsection \<open>User interaction\<close>

text \<open>
  A user interaction makes the control call one of its handler props with a payload.
  \<open>interact\<close> gives the calls that handler makes, \<open>None\<close> when the control has no
  handler for the event.
\<close>

datatype event =
    CheckedChange bool
  | ItemSelect nat
  | DateSelect "date option"
  | DatetimeChange "date option"
  | FilesChange "jsFile list option"
  | CountryChange "string option"
  | StateChange "string option"
  | ValuesChange "string list"
  | ValueChange string
  | SliderChange "int list"
  | SignatureChange "string option"
  | SmartDatetimeChange date
  | TagsChange "string list"

definition interact :: "widget \<Rightarrow> event \<Rightarrow> (exn + call list) option" where
  "interact w ev =
    (case w of
       Checkbox c h d \<Rightarrow> (case ev of CheckedChange b \<Rightarrow> Some (Inr (h b)) | _ \<Rightarrow> None)
     | Combobox t items \<Rightarrow>
         (case ev of
            ItemSelect i \<Rightarrow> if i < length items then Some (Inr (onSelect (items ! i))) else None
          | _ \<Rightarrow> None)
     | DatePicker s h \<Rightarrow> (case ev of DateSelect d \<Rightarrow> Some (Inr (h d)) | _ \<Rightarrow> None)
     | DatetimePicker f v h \<Rightarrow> (case ev of DatetimeChange d \<Rightarrow> Some (Inr (h d)) | _ \<Rightarrow> None)
     | FileUploader v h mf ms l \<Rightarrow> (case ev of FilesChange fs \<Rightarrow> Some (Inr (h fs)) | _ \<Rightarrow> None)
     | Input p d t \<Rightarrow> None
     | InputOTP m g \<Rightarrow> None
     | LocationSelector hc hs \<Rightarrow>
         (case ev of
            CountryChange c \<Rightarrow> Some (Inr (hc c))
          | StateChange s \<Rightarrow> Some (Inr (hs s))
          | _ \<Rightarrow> None)
     | MultiSelector v h items \<Rightarrow> (case ev of ValuesChange vs \<Rightarrow> Some (Inr (h vs)) | _ \<Rightarrow> None)
     | Select h d items \<Rightarrow> (case ev of ValueChange v \<Rightarrow> Some (Inr (h v)) | _ \<Rightarrow> None)
     | Slider mn mx st d h \<Rightarrow> (case ev of SliderChange vs \<Rightarrow> Some (h vs) | _ \<Rightarrow> None)
     | SignatureInput r h \<Rightarrow> (case ev of SignatureChange s \<Rightarrow> Some (Inr (h s)) | _ \<Rightarrow> None)
     | SmartDatetimeInput v h \<Rightarrow> (case ev of SmartDatetimeChange d \<Rightarrow> Some (Inr (h d)) | _ \<Rightarrow> None)
     | Switch c h \<Rightarrow> (case ev of CheckedChange b \<Rightarrow> Some (Inr (h b)) | _ \<Rightarrow> None)
     | TagsInput v h \<Rightarrow> (case ev of TagsChange ts \<Rightarrow> Some (Inr (h ts)) | _ \<Rightarrow> None)
     | Textarea p \<Rightarrow> None
     | PasswordInput v \<Rightarrow> None
     | PhoneInput c \<Rightarrow> None)"

section \<open>The JSON builder's renderer\<close>

text \<open>
  A field of the JSON form definition (\<^verbatim>\<open>jsonField: any\<close>), with the properties
  that the editor's documentation lists. An absent property is \<open>None\<close>; a
  \<^verbatim>\<open>type\<close> that is not a string is outside the model.
\<close>

record jsonField =
  json_type :: "string option"
  json_label :: "string option"
  json_name :: "string option"
  json_placeholder :: "string option"
  json_required :: "bool option"
  json_description :: "string option"
  json_options :: "(string \<times> string) list option"
  json_disabled :: "bool option"
  json_value :: "string option"
  json_checked :: "bool option"
  json_min :: "int option"
  json_max :: "int option"
  json_step :: "int option"
  json_defaultValue :: "int option"
  json_length :: "nat option"

definition typeToVariant :: "(string \<times> string) list" where
  "typeToVariant =
    [(''text'', ''Input''),
     (''email'', ''Input''),
     (''textarea'', ''Textarea''),
     (''password'', ''Password''),
     (''checkbox'', ''Checkbox''),
     (''select'', ''Select''),
     (''file'', ''File Input''),
     (''date'', ''Date Picker''),
     (''datetime'', ''Datetime Picker''),
     (''phone'', ''Phone'')]"

text \<open>
  \<^verbatim>\<open>typeToVariant\<close> is an object literal, so \<^verbatim>\<open>typeToVariant[k]\<close> finds,
  besides its own ten properties, the members it inherits from
  \<^verbatim>\<open>Object.prototype\<close>. Each of those is a function or an object: truthy, and not a
  string.
\<close>

definition objectPrototypeKeys :: "string list" where
  "objectPrototypeKeys =
    [''constructor'', ''__proto__'', ''hasOwnProperty'', ''isPrototypeOf'',
     ''propertyIsEnumerable'', ''toLocaleString'', ''toString'', ''valueOf'',
     ''__defineGetter__'', ''__defineSetter__'', ''__lookupGetter__'', ''__lookupSetter__'']"

definition typeToVariant_lookup :: "string \<Rightarrow> jsVariant option" where
  "typeToVariant_lookup k =
    (case map_of typeToVariant k of
       Some v \<Rightarrow> Some (Str v)
     | None \<Rightarrow> if k \<in> set objectPrototypeKeys then Some (Inherited k) else None)"

text \<open>\<^verbatim>\<open>toUpperCase\<close> on one ASCII character.\<close>

definition toUpperCase_char :: "char \<Rightarrow> char" where
  "toUpperCase_char c =
    (case map_of (zip ''abcdefghijklmnopqrstuvwxyz'' ''ABCDEFGHIJKLMNOPQRSTUVWXYZ'') c of
       Some u \<Rightarrow> u
     | None \<Rightarrow> c)"

text \<open>\<^verbatim>\<open>t.charAt(0).toUpperCase() + t.slice(1)\<close>\<close>

definition capitalize :: "string \<Rightarrow> string" where
  "capitalize t = (case t of [] \<Rightarrow> [] | c # cs \<Rightarrow> toUpperCase_char c # cs)"

text \<open>
  With \<^verbatim>\<open>type\<close> absent the lookup gives \<^verbatim>\<open>undefined\<close> and
  \<^verbatim>\<open>jsonField.type.charAt\<close> throws a TypeError. Every value of the table is a
  non-empty string, so \<^verbatim>\<open>||\<close> takes the right operand exactly when the lookup finds
  nothing. The properties min, max, step, defaultValue and length are not copied.
\<close>

definition convertJsonFieldToFormField :: "jsonField \<Rightarrow> exn + FormFieldType" where
  "convertJsonFieldToFormField jsonField =
    (case json_type jsonField of
       None \<Rightarrow> Inl TypeError
     | Some t \<Rightarrow>
         Inr \<lparr> variant = (case typeToVariant_lookup t of Some v \<Rightarrow> v | None \<Rightarrow> Str (capitalize t)),
               typeF = orElse (Some t) [],
               label = json_label jsonField,
               name = json_name jsonField,
               placeholder = json_placeholder jsonField,
               required = json_required jsonField,
               description = json_description jsonField,
               options = json_options jsonField,
               disabled = (json_disabled jsonField = Some True),
               valueF = orElse (json_value jsonField) [],
               checkedF = (json_checked jsonField = Some True),
               rowIndex = 0,
               minF = None, maxF = None, stepF = None, defaultValue = None, lengthF = None \<rparr>)"

text \<open>
  \<^verbatim>\<open>Array.prototype.map\<close> with a callback that may throw: the callbacks run in
  order and the first exception ends the loop.
\<close>

fun mapIndexed :: "(nat \<Rightarrow> 'a \<Rightarrow> exn + 'b) \<Rightarrow> nat \<Rightarrow> 'a list \<Rightarrow> exn + 'b list" where
  "mapIndexed f i [] = Inr []"
| "mapIndexed f i (x # xs) =
    (case f i x of
       Inl e \<Rightarrow> Inl e
     | Inr y \<Rightarrow> (case mapIndexed f (Suc i) xs of Inl e \<Rightarrow> Inl e | Inr ys \<Rightarrow> Inr (y # ys)))"

text \<open>
  \<^verbatim>\<open>React.cloneElement(element, props)\<close> is a function of the React library: it
  throws an Error when \<^verbatim>\<open>element\<close> is \<^verbatim>\<open>null\<close> or \<^verbatim>\<open>undefined\<close>,
  and otherwise returns the element with the props added.
\<close>

definition cloneElement :: "element option \<Rightarrow> string option \<Rightarrow> exn + element" where
  "cloneElement el formField =
    (case el of
       None \<Rightarrow> Inl CloneElementOfNull
     | Some e \<Rightarrow> Inr (e\<lparr>bound := BoundTo formField\<rparr>))"

datatype reactKey = KeyName "string option" | KeyIndex nat

text \<open>
  A mounted \<^verbatim>\<open>FormField\<close>: its key and name, the column span of the
  \<^verbatim>\<open>FormItem\<close> its render callback produces (\<open>None\<close>: no such class), and the cloned
  control inside. The form library calls the render callback when the
  \<^verbatim>\<open>FormField\<close> is rendered; an exception of the callback is an exception of the
  rendering.
\<close>

record formField =
  fieldKey :: reactKey
  fieldName :: "string option"
  colSpanClass :: "nat option"
  child :: element

text \<open>
  The callback of \<^verbatim>\<open>formFields.map\<close> in \<^verbatim>\<open>FormRenderer\<close>; \<open>None\<close> is the
  \<^verbatim>\<open>null\<close> it returns when \<^verbatim>\<open>renderFormField\<close> gave no control.
\<close>

definition renderedField :: "stateBag \<Rightarrow> nat \<Rightarrow> FormFieldType \<Rightarrow> exn + formField option" where
  "renderedField state index field =
    (case renderFormField field state of
       None \<Rightarrow> Inr None
     | Some el \<Rightarrow>
         (case cloneElement (Some el) (name field) of
            Inl e \<Rightarrow> Inl e
          | Inr c \<Rightarrow>
              Inr (Some \<lparr> fieldKey = (if truthy (name field) then KeyName (name field)
                                       else KeyIndex index),
                          fieldName = name field,
                          colSpanClass = None,
                          child = c \<rparr>)))"

definition renderedFields :: "stateBag \<Rightarrow> FormFieldType list \<Rightarrow> exn + formField option list" where
  "renderedFields state formFields = mapIndexed (renderedField state) 0 formFields"

text \<open>
  \<^verbatim>\<open>FormRenderer\<close>: the state bag is the component's own state, one
  \<^verbatim>\<open>useState\<close> per slot. Schema and default values come from
  \<^verbatim>\<open>generateZodSchema\<close> and \<^verbatim>\<open>generateDefaultValues\<close>, which are not among
  the sources and take no part in \<open>renderedFields\<close>. The parameter \<open>formData\<close> is
  the array \<^verbatim>\<open>formData.fields\<close>.
\<close>

definition FormRenderer :: "stateBag \<Rightarrow> jsonField list \<Rightarrow> exn + formField option list" where
  "FormRenderer state formData =
    (case mapIndexed (\<lambda>_. convertJsonFieldToFormField) 0 formData of
       Inl e \<Rightarrow> Inl e
     | Inr formFields \<Rightarrow> renderedFields state formFields)"

text \<open>React renders nothing for a \<^verbatim>\<open>null\<close> child.\<close>

definition mounted :: "'a option list \<Rightarrow> 'a list" where
  "mounted entries = List.map_filter id entries"

text \<open>
  The setters of \<^verbatim>\<open>FormRenderer\<close>'s bag are its \<^verbatim>\<open>useState\<close> setters: a call
  replaces the slot. \<^verbatim>\<open>form.setValue\<close> acts on the form, and the
  \<^verbatim>\<open>onChange\<close> that \<^verbatim>\<open>convertJsonFieldToFormField\<close> supplies does nothing.
\<close>

fun applyCall :: "call \<Rightarrow> stateBag \<Rightarrow> stateBag" where
  "applyCall (SetChecked b) s = s\<lparr>checked := b\<rparr>"
| "applyCall (SetSmartDatetime d) s = s\<lparr>smartDatetime := Some d\<rparr>"
| "applyCall (SetTagsValue ts) s = s\<lparr>tagsValue := ts\<rparr>"
| "applyCall (SetValue v) s = s\<lparr>valueS := Some v\<rparr>"
| "applyCall (SetDate d) s = s\<lparr>date := d\<rparr>"
| "applyCall (SetSelectedValues vs) s = s\<lparr>selectedValues := vs\<rparr>"
| "applyCall (SetCountryName n) s = s\<lparr>countryName := n\<rparr>"
| "applyCall (SetStateName n) s = s\<lparr>stateName := n\<rparr>"
| "applyCall (SetFiles fs) s = s\<lparr>files := fs\<rparr>"
| "applyCall (SetDatetime d) s = s\<lparr>datetime := Some d\<rparr>"
| "applyCall (FormSetValue n v opts) s = s"
| "applyCall (FieldOnChange v) s = s"

definition applyCalls :: "call list \<Rightarrow> stateBag \<Rightarrow> stateBag" where
  "applyCalls calls s = fold applyCall calls s"

section \<open>The builder's preview\<close>

datatype FormFieldOrGroup = Single FormFieldType | Group "FormFieldType list"

text \<open>
  The bag that \<^verbatim>\<open>renderFormFields\<close> writes out at each call of
  \<^verbatim>\<open>renderFormField\<close>; every setter in it is \<^verbatim>\<open>() => {}\<close>.
\<close>

definition previewBag :: stateBag where
  "previewBag =
    \<lparr> checked = False, smartDatetime = None, tagsValue = [], canvasRef = None,
      valueS = Some [], date = None, selectedValues = [], countryName = [],
      stateName = [], files = None, datetime = None \<rparr>"

definition colSpan :: "FormFieldType list \<Rightarrow> nat" where
  "colSpan fieldOrGroup = (if length fieldOrGroup = 2 then 6 else 4)"

text \<open>A row of the preview: a twelve-column grid of a group's fields, or a single field.\<close>

datatype row = GridRow nat "formField list" | FieldRow formField

definition groupMember :: "nat \<Rightarrow> nat \<Rightarrow> FormFieldType \<Rightarrow> exn + formField" where
  "groupMember span subIndex field =
    (case cloneElement (renderFormField field previewBag) (name field) of
       Inl e \<Rightarrow> Inl e
     | Inr c \<Rightarrow>
         Inr \<lparr> fieldKey = KeyName (name field),
               fieldName = name field,
               colSpanClass = Some span,
               child = c \<rparr>)"

definition renderRow :: "nat \<Rightarrow> FormFieldOrGroup \<Rightarrow> exn + row" where
  "renderRow index fieldOrGroup =
    (case fieldOrGroup of
       Group g \<Rightarrow>
         (case mapIndexed (groupMember (colSpan g)) 0 g of
            Inl e \<Rightarrow> Inl e
          | Inr cells \<Rightarrow> Inr (GridRow index cells))
     | Single field \<Rightarrow>
         (case cloneElement (renderFormField field previewBag) (name field) of
            Inl e \<Rightarrow> Inl e
          | Inr c \<Rightarrow>
              Inr (FieldRow \<lparr> fieldKey = KeyIndex index,
                              fieldName = name field,
                              colSpanClass = None,
                              child = c \<rparr>)))"

definition renderFormFields :: "FormFieldOrGroup list \<Rightarrow> exn + row list" where
  "renderFormFields formFields = mapIndexed renderRow 0 formFields"

section \<open>The JSON editor\<close>

datatype toast = ToastSuccess string | ToastError string

text \<open>
  The state of \<^verbatim>\<open>FormJsonBuilder\<close>, with the toasts it has shown.
  \<^verbatim>\<open>formData\<close> is what \<^verbatim>\<open>FormRenderer\<close> receives.
\<close>

record 'j builder =
  jsonValue :: string
  formData :: 'j
  error :: string
  key :: nat
  toasts :: "toast list"

text \<open>
  \<^verbatim>\<open>JSON.parse\<close> belongs to the language: it is the parameter \<open>parse\<close>, with
  \<open>None\<close> for the SyntaxError it throws.
\<close>

definition handleJsonChange :: "(string \<Rightarrow> 'j option) \<Rightarrow> string \<Rightarrow> 'j builder \<Rightarrow> 'j builder" where
  "handleJsonChange parse v s =
    (let s1 = s\<lparr>jsonValue := v\<rparr>
     in case parse v of
          Some parsed \<Rightarrow> s1\<lparr>formData := parsed, error := []\<rparr>
        | None \<Rightarrow> s1\<lparr>error := ''Invalid JSON format''\<rparr>)"

definition handleRefresh :: "(string \<Rightarrow> 'j option) \<Rightarrow> 'j builder \<Rightarrow> 'j builder" where
  "handleRefresh parse s =
    (case parse (jsonValue s) of
       Some parsed \<Rightarrow>
         s\<lparr>formData := parsed, error := [], key := key s + 1,
           toasts := toasts s @ [ToastSuccess ''Form refreshed successfully'']\<rparr>
     | None \<Rightarrow>
         s\<lparr>error := ''Invalid JSON format'',
           toasts := toasts s @ [ToastError ''Failed to refresh form: Invalid JSON format'']\<rparr>)"

section \<open>Observations and sample inputs\<close>

text \<open>
  What a control displays of the state bag: the slot it was rendered from. A Combobox
  displays the slot \<^verbatim>\<open>value\<close> as the check mark on the items whose value equals
  it, a Slider as the selected value in its description, a Signature Input holds the
  shared canvas handle.
\<close>

datatype shown =
    ShownChecked bool
  | ShownPicks "string list"
  | ShownSelected string
  | ShownDate "date option"
  | ShownDatetime "date option"
  | ShownFiles "jsFile list option"
  | ShownValues "string list"
  | ShownSmartDatetime "date option"
  | ShownTags "string list"
  | ShownCanvas "nat option"

definition displayed :: "element \<Rightarrow> shown option" where
  "displayed el =
    (case control el of
       Checkbox c h d \<Rightarrow> Some (ShownChecked c)
     | Switch c h \<Rightarrow> Some (ShownChecked c)
     | Combobox t items \<Rightarrow> Some (ShownPicks (map itemKey (filter checkShown items)))
     | Slider mn mx st d h \<Rightarrow>
         (case itemDescription el of
            SliderText text selected a b c \<Rightarrow> Some (ShownSelected selected)
          | Plain text \<Rightarrow> None)
     | DatePicker s h \<Rightarrow> Some (ShownDate s)
     | DatetimePicker f v h \<Rightarrow> Some (ShownDatetime v)
     | FileUploader v h mf ms l \<Rightarrow> Some (ShownFiles v)
     | MultiSelector v h items \<Rightarrow> Some (ShownValues v)
     | SmartDatetimeInput v h \<Rightarrow> Some (ShownSmartDatetime v)
     | TagsInput v h \<Rightarrow> Some (ShownTags v)
     | SignatureInput r h \<Rightarrow> Some (ShownCanvas r)
     | _ \<Rightarrow> None)"

text \<open>The values a choice control offers for selection.\<close>

definition choices :: "widget \<Rightarrow> string list option" where
  "choices w =
    (case w of
       Combobox t items \<Rightarrow> Some (map itemKey items)
     | MultiSelector v h items \<Rightarrow> Some items
     | Select h d items \<Rightarrow> Some items
     | _ \<Rightarrow> None)"

text \<open>The column spans of the cells of a row.\<close>

definition rowSpans :: "row \<Rightarrow> nat option list" where
  "rowSpans r = (case r of GridRow i cells \<Rightarrow> map colSpanClass cells | FieldRow c \<Rightarrow> [colSpanClass c])"

text \<open>
  A call of a state-bag setter, and a call of \<^verbatim>\<open>form.setValue\<close> under a given
  name.
\<close>

definition isSlotWrite :: "call \<Rightarrow> bool" where
  "isSlotWrite c = (case c of FormSetValue n v opts \<Rightarrow> False | FieldOnChange v \<Rightarrow> False | _ \<Rightarrow> True)"

definition isFormWrite :: "string option \<Rightarrow> call \<Rightarrow> bool" where
  "isFormWrite nm c = (case c of FormSetValue n v opts \<Rightarrow> n = nm | _ \<Rightarrow> False)"

definition bothWrites :: "string option \<Rightarrow> call list \<Rightarrow> bool" where
  "bothWrites nm calls = (list_ex isSlotWrite calls \<and> list_ex (isFormWrite nm) calls)"

text \<open>The hyphenated types of the editor's documentation that the claim on the converter names.\<close>

definition hyphenatedTypes :: "string list" where
  "hyphenatedTypes =
    [''multi-select'', ''tags-input'', ''input-otp'', ''smart-datetime'', ''signature-input'',
     ''location-input'', ''date-picker'', ''datetime-picker'']"

text \<open>A required field of the given variant and name, everything else absent.\<close>

definition sampleField :: "string \<Rightarrow> string \<Rightarrow> FormFieldType" where
  "sampleField v n =
    \<lparr> variant = Str v, typeF = [], label = Some n, name = Some n, placeholder = None,
      required = Some True, description = None, options = None, disabled = False,
      valueF = [], checkedF = False, rowIndex = 0, minF = None, maxF = None,
      stepF = None, defaultValue = None, lengthF = None \<rparr>"

text \<open>A JSON field with the given type and name, everything else absent.\<close>

definition sampleJson :: "string \<Rightarrow> string \<Rightarrow> jsonField" where
  "sampleJson t n =
    \<lparr> json_type = Some t, json_label = None, json_name = Some n, json_placeholder = None,
      json_required = None, json_description = None, json_options = None,
      json_disabled = None, json_value = None, json_checked = None, json_min = None,
      json_max = None, json_step = None, json_defaultValue = None, json_length = None \<rparr>"

text \<open>
  A stand-in for \<^verbatim>\<open>JSON.parse\<close> in the examples, defined on one text: the empty
  field list.
\<close>

definition sampleParse :: "string \<Rightarrow> jsonField list option" where
  "sampleParse s = (if s = ''[]'' then Some [] else None)"

definition sampleBuilder :: "jsonField list builder" where
  "sampleBuilder =
    \<lparr> jsonValue = ''[]'', formData = [sampleJson ''text'' ''fullName''], error = [],
      key = 0, toasts = [] \<rparr>"

section \<open>Properties of the dispatcher\<close>

lemma renderFormField_Some_iff:
  "(\<exists>el. renderFormField field state = Some el) \<longleftrightarrow> variant field \<in> Str ` set recognized"
  by (cases "variant field") (auto simp: renderFormField_def recognized_def)

lemma renderFormField_unrecognized:
  "variant field \<notin> Str ` set recognized \<Longrightarrow> renderFormField field state = None"
  using renderFormField_Some_iff[of field state] by (cases "renderFormField field state") auto

lemma toString_30: "toString 30 = ''30''"
  by code_simp

subsection \<open>Unrecognized variants\<close>

text \<open>
  \<^verbatim>\<open>FormRenderer\<close> tests the result of \<^verbatim>\<open>renderFormField\<close> before it
  clones it, so its callback never throws and returns \<^verbatim>\<open>null\<close> for an
  unrecognized variant.
\<close>

lemma renderedField_eq:
  "renderedField state i field =
     Inr (map_option
           (\<lambda>el. \<lparr> fieldKey = (if truthy (name field) then KeyName (name field) else KeyIndex i),
                   fieldName = name field, colSpanClass = None,
                   child = el\<lparr>bound := BoundTo (name field)\<rparr> \<rparr>)
           (renderFormField field state))"
  by (simp add: renderedField_def cloneElement_def split: option.splits)

lemma mapIndexed_renderedField_children:
  "\<exists>entries. mapIndexed (renderedField state) i formFields = Inr entries
      \<and> length entries = length formFields
      \<and> map child (mounted entries) =
          List.map_filter
            (\<lambda>f. map_option (\<lambda>el. el\<lparr>bound := BoundTo (name f)\<rparr>) (renderFormField f state))
            formFields"
proof (induction formFields arbitrary: i)
  case Nil
  show ?case by (simp add: mounted_def map_filter_simps)
next
  case (Cons f fs)
  from Cons.IH[of "Suc i"] obtain entries where
    e: "mapIndexed (renderedField state) (Suc i) fs = Inr entries"
       "length entries = length fs"
       "map child (mounted entries) =
          List.map_filter
            (\<lambda>f. map_option (\<lambda>el. el\<lparr>bound := BoundTo (name f)\<rparr>) (renderFormField f state)) fs"
    by blast
  show ?case
  proof (cases "renderFormField f state")
    case None
    then have "renderedField state i f = Inr None"
      by (simp add: renderedField_eq[of state i f])
    with e None show ?thesis
      by (simp add: mounted_def map_filter_simps)
  next
    case (Some el)
    then obtain c where c: "renderedField state i f = Inr (Some c)"
        "child c = el\<lparr>bound := BoundTo (name f)\<rparr>"
      by (simp add: renderedField_eq[of state i f])
    with e Some show ?thesis
      by (simp add: mounted_def map_filter_simps)
  qed
qed

text \<open>
  The part of claim C1 that holds: in \<^verbatim>\<open>FormRenderer\<close>, a field list with a field
  of unrecognized variant renders without an exception, and the controls it mounts are
  those of the list without that field. (The keys of nameless fields are their indices,
  which the removal shifts.)
\<close>

lemma FormRenderer_omits_unrecognized:
  assumes "variant field \<notin> Str ` set recognized"
  shows "\<exists>entries entries'.
           renderedFields state (before @ field # after) = Inr entries
         \<and> renderedFields state (before @ after) = Inr entries'
         \<and> map child (mounted entries) = map child (mounted entries')"
proof -
  let ?g = "\<lambda>f. map_option (\<lambda>el. el\<lparr>bound := BoundTo (name f)\<rparr>) (renderFormField f state)"
  have "?g field = None"
    using renderFormField_unrecognized[OF assms] by simp
  then have "List.map_filter ?g (before @ field # after) = List.map_filter ?g (before @ after)"
    by (simp add: map_filter_def)
  then show ?thesis
    using mapIndexed_renderedField_children[of state 0 "before @ field # after"]
          mapIndexed_renderedField_children[of state 0 "before @ after"]
    unfolding renderedFields_def by metis
qed

text \<open>
  In \<^verbatim>\<open>renderFormFields\<close> the result of \<^verbatim>\<open>renderFormField\<close> goes to
  \<^verbatim>\<open>React.cloneElement\<close> untested, so any row with a field of unrecognized variant
  throws when it is rendered.
\<close>

lemma mapIndexed_throws:
  assumes "\<And>j. f j x = Inl e" and "\<And>j y e'. f j y = Inl e' \<Longrightarrow> e' = e"
  shows "mapIndexed f i (before @ x # after) = Inl e"
proof (induction before arbitrary: i)
  case Nil
  show ?case by (simp add: assms(1))
next
  case (Cons a as)
  show ?case
  proof (cases "f i a")
    case (Inl e')
    with assms(2) show ?thesis by simp
  next
    case (Inr y)
    with Cons.IH[of "Suc i"] show ?thesis by simp
  qed
qed

lemma groupMember_throws:
  "groupMember span j field = Inl e' \<Longrightarrow> e' = CloneElementOfNull"
  by (simp add: groupMember_def cloneElement_def split: option.splits)

lemma mapIndexed_only_throws:
  assumes "\<And>j y e'. f j y = Inl e' \<Longrightarrow> e' = e" and "mapIndexed f i xs = Inl e'"
  shows "e' = e"
  using assms(2)
proof (induction xs arbitrary: i)
  case Nil
  then show ?case by simp
next
  case (Cons a as)
  then show ?case
    using assms(1) by (auto split: sum.splits)
qed

lemma renderRow_throws:
  assumes "renderRow j x = Inl e'"
  shows "e' = CloneElementOfNull"
proof (cases x)
  case (Single field)
  with assms show ?thesis
    by (simp add: renderRow_def cloneElement_def split: option.splits)
next
  case (Group g)
  with assms have "mapIndexed (groupMember (colSpan g)) 0 g = Inl e'"
    by (simp add: renderRow_def split: sum.splits)
  then show ?thesis
    using mapIndexed_only_throws[of "groupMember (colSpan g)" CloneElementOfNull 0 g e']
          groupMember_throws by blast
qed

lemma renderRow_unrecognized:
  assumes "variant field \<notin> Str ` set recognized"
  shows "renderRow i (Single field) = Inl CloneElementOfNull"
    and "renderRow i (Group (g @ field # g')) = Inl CloneElementOfNull"
proof -
  have n: "renderFormField field previewBag = None"
    using renderFormField_unrecognized[OF assms] by simp
  then show "renderRow i (Single field) = Inl CloneElementOfNull"
    by (simp add: renderRow_def cloneElement_def)
  have "\<And>j. groupMember (colSpan (g @ field # g')) j field = Inl CloneElementOfNull"
    using n by (simp add: groupMember_def cloneElement_def)
  then have "mapIndexed (groupMember (colSpan (g @ field # g'))) 0 (g @ field # g')
               = Inl CloneElementOfNull"
    using mapIndexed_throws[of "groupMember (colSpan (g @ field # g'))" field CloneElementOfNull]
          groupMember_throws by blast
  then show "renderRow i (Group (g @ field # g')) = Inl CloneElementOfNull"
    by (simp add: renderRow_def)
qed

text \<open>
  So the preview of any form definition that holds a field of unrecognized variant, alone
  in its row or in a group, throws.
\<close>

lemma renderFormFields_unrecognized:
  assumes "variant field \<notin> Str ` set recognized"
  shows "renderFormFields (before @ Single field # after) = Inl CloneElementOfNull"
    and "renderFormFields (before @ Group (g @ field # g') # after) = Inl CloneElementOfNull"
  unfolding renderFormFields_def
  using mapIndexed_throws[of renderRow _ CloneElementOfNull] renderRow_unrecognized[OF assms]
        renderRow_throws
  by blast+

text \<open>
  Claim C1: for a field whose variant matches no case, \<^verbatim>\<open>renderFormField\<close> returns
  \<^verbatim>\<open>null\<close> and every caller omits the field without throwing, on the
  \<^verbatim>\<open>FormRenderer\<close> path and on the \<^verbatim>\<open>renderFormFields\<close> path.
  The code breaks this on the second path: for a field of the unrecognized variant
  ``Rating'' the dispatcher returns \<^verbatim>\<open>null\<close>, and \<^verbatim>\<open>renderFormFields\<close>
  throws both for a list that holds the field alone in a row and for a list that holds it
  in a group, while the same list without that field renders.
\<close>

theorem renderFormFields_throws_on_unrecognized:
  "renderFormField (sampleField ''Rating'' ''stars'') previewBag = None
   \<and> renderFormFields [Single (sampleField ''Input'' ''email''), Single (sampleField ''Rating'' ''stars'')]
       = Inl CloneElementOfNull
   \<and> renderFormFields [Group [sampleField ''Input'' ''email'', sampleField ''Rating'' ''stars'']]
       = Inl CloneElementOfNull
   \<and> (\<exists>rows. renderFormFields [Single (sampleField ''Input'' ''email'')] = Inr rows)"
  by (simp add: renderFormFields_def renderRow_def groupMember_def cloneElement_def
        renderFormField_def sampleField_def caseInput_def)

subsection \<open>The writes of an interaction\<close>

text \<open>
  Claim C2, as stated: for every recognized variant the control, on a user interaction,
  calls the setter of its state-bag slot and writes the value into the form under the
  field's name. It fails for the Checkbox: its handler only calls
  \<^verbatim>\<open>state.setChecked\<close>.
\<close>

theorem checkbox_no_form_write:
  "renderFormField (sampleField ''Checkbox'' ''subscribe'') previewBag
     = Some (caseCheckbox (sampleField ''Checkbox'' ''subscribe'') previewBag)
   \<and> interact (control (caseCheckbox (sampleField ''Checkbox'' ''subscribe'') previewBag))
        (CheckedChange True) = Some (Inr [SetChecked True])
   \<and> \<not> bothWrites (name (sampleField ''Checkbox'' ''subscribe'')) [SetChecked True]"
  by (simp add: renderFormField_def sampleField_def caseCheckbox_def formItem_def interact_def
        previewBag_def bothWrites_def isFormWrite_def)

lemma combobox_handlers:
  assumes "variant field = Str ''Combobox''"
  shows "\<exists>el. renderFormField field state = Some el
           \<and> (\<forall>ev. interact (control el) ev =
                 (case ev of
                    ItemSelect i \<Rightarrow>
                      if i < length languages
                      then Some (Inr [SetValue (snd (languages ! i)),
                                      FormSetValue (name field) (FString (snd (languages ! i)))
                                        NoOptions])
                      else None
                  | _ \<Rightarrow> None))"
  using assms
  by (auto simp: renderFormField_def caseCombobox_def formItem_def interact_def
        split: event.splits)

lemma location_handlers:
  assumes "variant field = Str ''Location Input''"
  shows "\<exists>el. renderFormField field state = Some el
           \<and> (\<forall>ev. interact (control el) ev =
                 (case ev of
                    CountryChange country \<Rightarrow>
                      Some (Inr [SetCountryName (orElse country []),
                                 FormSetValue (name field)
                                   (FStrings [orElse country [], stateName state]) NoOptions])
                  | StateChange stateData \<Rightarrow>
                      Some (Inr [SetStateName (orElse stateData []),
                                 FormSetValue (name field)
                                   (FStrings [countryName state, orElse stateData []]) NoOptions])
                  | _ \<Rightarrow> None))"
  using assms
  by (auto simp: renderFormField_def caseLocationInput_def formItem_def interact_def orElse_def
        split: event.splits)

lemma multiSelect_handlers:
  assumes "variant field = Str ''Multi Select''"
  shows "\<exists>el. renderFormField field state = Some el
           \<and> (\<forall>ev. interact (control el) ev =
                 (case ev of
                    ValuesChange newValues \<Rightarrow>
                      Some (Inr [SetSelectedValues newValues,
                                 FormSetValue (name field) (FStrings newValues) ValidateAndDirty])
                  | _ \<Rightarrow> None))"
  using assms
  by (auto simp: renderFormField_def caseMultiSelect_def formItem_def interact_def
        split: event.splits)

lemma tagsInput_handlers:
  assumes "variant field = Str ''Tags Input''"
  shows "\<exists>el. renderFormField field state = Some el
           \<and> (\<forall>ev. interact (control el) ev =
                 (case ev of
                    TagsChange newTags \<Rightarrow>
                      Some (Inr [SetTagsValue newTags,
                                 FormSetValue (name field) (FStrings newTags) ValidateAndDirty])
                  | _ \<Rightarrow> None))"
  using assms
  by (auto simp: renderFormField_def caseTagsInput_def formItem_def interact_def
        split: event.splits)

lemma four_variants_bothWrites:
  assumes "variant field \<in> {Str ''Combobox'', Str ''Location Input'', Str ''Multi Select'', Str ''Tags Input''}"
  shows "\<exists>el. renderFormField field state = Some el
           \<and> (\<exists>ev r. interact (control el) ev = Some r)
           \<and> (\<forall>ev r. interact (control el) ev = Some r \<longrightarrow>
                 (\<exists>calls. r = Inr calls \<and> bothWrites (name field) calls))"
proof -
  consider (c) "variant field = Str ''Combobox''" | (l) "variant field = Str ''Location Input''"
    | (m) "variant field = Str ''Multi Select''" | (t) "variant field = Str ''Tags Input''"
    using assms by auto
  then show ?thesis
  proof cases
    case c
    from combobox_handlers[OF c, of state] obtain el where
      el: "renderFormField field state = Some el"
          "\<And>ev. interact (control el) ev =
                 (case ev of
                    ItemSelect i \<Rightarrow>
                      if i < length languages
                      then Some (Inr [SetValue (snd (languages ! i)),
                                      FormSetValue (name field) (FString (snd (languages ! i)))
                                        NoOptions])
                      else None
                  | _ \<Rightarrow> None)"
      by blast
    have "\<exists>r. interact (control el) (ItemSelect 0) = Some r"
      by (simp add: el(2) languages_def)
    moreover have "\<exists>calls. r = Inr calls \<and> bothWrites (name field) calls"
      if "interact (control el) ev = Some r" for ev r
      using that unfolding el(2)
      by (auto simp: bothWrites_def isSlotWrite_def isFormWrite_def split: event.splits if_splits)
    ultimately show ?thesis using el(1) by blast
  next
    case l
    from location_handlers[OF l, of state] obtain el where
      el: "renderFormField field state = Some el"
          "\<And>ev. interact (control el) ev =
                 (case ev of
                    CountryChange country \<Rightarrow>
                      Some (Inr [SetCountryName (orElse country []),
                                 FormSetValue (name field)
                                   (FStrings [orElse country [], stateName state]) NoOptions])
                  | StateChange stateData \<Rightarrow>
                      Some (Inr [SetStateName (orElse stateData []),
                                 FormSetValue (name field)
                                   (FStrings [countryName state, orElse stateData []]) NoOptions])
                  | _ \<Rightarrow> None)"
      by blast
    have "\<exists>r. interact (control el) (CountryChange None) = Some r"
      by (simp add: el(2))
    moreover have "\<exists>calls. r = Inr calls \<and> bothWrites (name field) calls"
      if "interact (control el) ev = Some r" for ev r
      using that unfolding el(2)
      by (auto simp: bothWrites_def isSlotWrite_def isFormWrite_def split: event.splits)
    ultimately show ?thesis using el(1) by blast
  next
    case m
    from multiSelect_handlers[OF m, of state] obtain el where
      el: "renderFormField field state = Some el"
          "\<And>ev. interact (control el) ev =
                 (case ev of
                    ValuesChange newValues \<Rightarrow>
                      Some (Inr [SetSelectedValues newValues,
                                 FormSetValue (name field) (FStrings newValues) ValidateAndDirty])
                  | _ \<Rightarrow> None)"
      by blast
    have "\<exists>r. interact (control el) (ValuesChange []) = Some r"
      by (simp add: el(2))
    moreover have "\<exists>calls. r = Inr calls \<and> bothWrites (name field) calls"
      if "interact (control el) ev = Some r" for ev r
      using that unfolding el(2)
      by (auto simp: bothWrites_def isSlotWrite_def isFormWrite_def split: event.splits)
    ultimately show ?thesis using el(1) by blast
  next
    case t
    from tagsInput_handlers[OF t, of state] obtain el where
      el: "renderFormField field state = Some el"
          "\<And>ev. interact (control el) ev =
                 (case ev of
                    TagsChange newTags \<Rightarrow>
                      Some (Inr [SetTagsValue newTags,
                                 FormSetValue (name field) (FStrings newTags) ValidateAndDirty])
                  | _ \<Rightarrow> None)"
      by blast
    have "\<exists>r. interact (control el) (TagsChange []) = Some r"
      by (simp add: el(2))
    moreover have "\<exists>calls. r = Inr calls \<and> bothWrites (name field) calls"
      if "interact (control el) ev = Some r" for ev r
      using that unfolding el(2)
      by (auto simp: bothWrites_def isSlotWrite_def isFormWrite_def split: event.splits)
    ultimately show ?thesis using el(1) by blast
  qed
qed

text \<open>
  Claim C2, amended: for the variants Combobox, Location Input, Multi Select and Tags
  Input, the control has an interaction handler, and every handler it has makes exactly
  two calls: the setter of a state-bag slot with the chosen value, then
  \<^verbatim>\<open>form.setValue\<close> under the field's name. The Combobox passes the value of the
  chosen language to both; Multi Select and Tags Input pass the new list to both (with
  the options to validate and mark dirty); the Location Input stores the chosen country
  or state name (the empty string if none) in its slot and passes to the form the pair
  of that name and the current value of the other slot. No other event reaches a
  handler.
\<close>

theorem both_writes_of_four_variants:
  "(variant field = Str ''Combobox'' \<longrightarrow>
      (\<exists>el. renderFormField field state = Some el
         \<and> (\<forall>ev. interact (control el) ev =
               (case ev of
                  ItemSelect i \<Rightarrow>
                    if i < length languages
                    then Some (Inr [SetValue (snd (languages ! i)),
                                    FormSetValue (name field) (FString (snd (languages ! i)))
                                      NoOptions])
                    else None
                | _ \<Rightarrow> None))))
   \<and> (variant field = Str ''Location Input'' \<longrightarrow>
      (\<exists>el. renderFormField field state = Some el
         \<and> (\<forall>ev. interact (control el) ev =
               (case ev of
                  CountryChange country \<Rightarrow>
                    Some (Inr [SetCountryName (orElse country []),
                               FormSetValue (name field)
                                 (FStrings [orElse country [], stateName state]) NoOptions])
                | StateChange stateData \<Rightarrow>
                    Some (Inr [SetStateName (orElse stateData []),
                               FormSetValue (name field)
                                 (FStrings [countryName state, orElse stateData []]) NoOptions])
                | _ \<Rightarrow> None))))
   \<and> (variant field = Str ''Multi Select'' \<longrightarrow>
      (\<exists>el. renderFormField field state = Some el
         \<and> (\<forall>ev. interact (control el) ev =
               (case ev of
                  ValuesChange newValues \<Rightarrow>
                    Some (Inr [SetSelectedValues newValues,
                               FormSetValue (name field) (FStrings newValues) ValidateAndDirty])
                | _ \<Rightarrow> None))))
   \<and> (variant field = Str ''Tags Input'' \<longrightarrow>
      (\<exists>el. renderFormField field state = Some el
         \<and> (\<forall>ev. interact (control el) ev =
               (case ev of
                  TagsChange newTags \<Rightarrow>
                    Some (Inr [SetTagsValue newTags,
                               FormSetValue (name field) (FStrings newTags) ValidateAndDirty])
                | _ \<Rightarrow> None))))
   \<and> (variant field \<in> {Str ''Combobox'', Str ''Location Input'', Str ''Multi Select'',
                        Str ''Tags Input''} \<longrightarrow>
      (\<exists>el. renderFormField field state = Some el
         \<and> (\<exists>ev r. interact (control el) ev = Some r)
         \<and> (\<forall>ev r. interact (control el) ev = Some r \<longrightarrow>
               (\<exists>calls. r = Inr calls \<and> bothWrites (name field) calls))))"
  using combobox_handlers[of field state] location_handlers[of field state]
        multiSelect_handlers[of field state] tagsInput_handlers[of field state]
        four_variants_bothWrites[of field state]
  by (intro conjI impI) assumption+

theorem both_writes_of_four_variants_witness:
  "variant (sampleField ''Combobox'' ''language'') = Str ''Combobox''
   \<and> (\<exists>el. renderFormField (sampleField ''Combobox'' ''language'') previewBag = Some el
          \<and> interact (control el) (ItemSelect 1)
              = Some (Inr [SetValue ''fr'',
                           FormSetValue (Some ''language'') (FString ''fr'') NoOptions])
          \<and> bothWrites (Some ''language'')
               [SetValue ''fr'', FormSetValue (Some ''language'') (FString ''fr'') NoOptions])
   \<and> variant (sampleField ''Location Input'' ''location'') = Str ''Location Input''
   \<and> (\<exists>el. renderFormField (sampleField ''Location Input'' ''location'') previewBag = Some el
          \<and> interact (control el) (CountryChange (Some ''Canada''))
              = Some (Inr [SetCountryName ''Canada'',
                           FormSetValue (Some ''location'') (FStrings [''Canada'', []])
                             NoOptions]))
   \<and> variant (sampleField ''Multi Select'' ''skills'') = Str ''Multi Select''
   \<and> (\<exists>el. renderFormField (sampleField ''Multi Select'' ''skills'') previewBag = Some el
          \<and> interact (control el) (ValuesChange [''React''])
              = Some (Inr [SetSelectedValues [''React''],
                           FormSetValue (Some ''skills'') (FStrings [''React''])
                             ValidateAndDirty]))
   \<and> variant (sampleField ''Tags Input'' ''keywords'') = Str ''Tags Input''
   \<and> (\<exists>el. renderFormField (sampleField ''Tags Input'' ''keywords'') previewBag = Some el
          \<and> interact (control el) (TagsChange [''a'', ''b''])
              = Some (Inr [SetTagsValue [''a'', ''b''],
                           FormSetValue (Some ''keywords'') (FStrings [''a'', ''b''])
                             ValidateAndDirty]))"
proof -
  let ?c = "sampleField ''Combobox'' ''language''"
  let ?l = "sampleField ''Location Input'' ''location''"
  let ?m = "sampleField ''Multi Select'' ''skills''"
  let ?t = "sampleField ''Tags Input'' ''keywords''"
  have vc: "variant ?c = Str ''Combobox''" and nc: "name ?c = Some ''language''"
    by (simp_all add: sampleField_def)
  have vl: "variant ?l = Str ''Location Input''" and nl: "name ?l = Some ''location''"
    by (simp_all add: sampleField_def)
  have vm: "variant ?m = Str ''Multi Select''" and nm: "name ?m = Some ''skills''"
    by (simp_all add: sampleField_def)
  have vt: "variant ?t = Str ''Tags Input''" and nt: "name ?t = Some ''keywords''"
    by (simp_all add: sampleField_def)
  have fr: "(1::nat) < length languages" "snd (languages ! 1) = ''fr''"
    by (simp_all add: languages_def)
  have ca: "orElse (Some ''Canada'') [] = ''Canada''" "stateName previewBag = []"
    by (simp_all add: orElse_def previewBag_def)
  have inC: "variant ?c \<in> {Str ''Combobox'', Str ''Location Input'', Str ''Multi Select'',
                              Str ''Tags Input''}"
    by (simp add: sampleField_def)
  from both_writes_of_four_variants[of ?c previewBag, THEN conjunct1] vc
  obtain ec where ec: "renderFormField ?c previewBag = Some ec"
     "interact (control ec) (ItemSelect 1)
        = Some (Inr [SetValue ''fr'', FormSetValue (Some ''language'') (FString ''fr'') NoOptions])"
    unfolding nc using fr by auto
  from both_writes_of_four_variants[of ?c previewBag] inC ec
  have bc: "bothWrites (Some ''language'')
               [SetValue ''fr'', FormSetValue (Some ''language'') (FString ''fr'') NoOptions]"
    unfolding nc by auto
  from both_writes_of_four_variants[of ?l previewBag, THEN conjunct2, THEN conjunct1] vl
  obtain el where el: "renderFormField ?l previewBag = Some el"
     "interact (control el) (CountryChange (Some ''Canada''))
        = Some (Inr [SetCountryName ''Canada'',
                     FormSetValue (Some ''location'') (FStrings [''Canada'', []]) NoOptions])"
    unfolding nl using ca by auto
  from both_writes_of_four_variants[of ?m previewBag, THEN conjunct2, THEN conjunct2,
         THEN conjunct1] vm
  obtain em where em: "renderFormField ?m previewBag = Some em"
     "interact (control em) (ValuesChange [''React''])
        = Some (Inr [SetSelectedValues [''React''],
                     FormSetValue (Some ''skills'') (FStrings [''React'']) ValidateAndDirty])"
    unfolding nm by auto
  from both_writes_of_four_variants[of ?t previewBag, THEN conjunct2, THEN conjunct2,
         THEN conjunct2, THEN conjunct1] vt
  obtain et where et: "renderFormField ?t previewBag = Some et"
     "interact (control et) (TagsChange [''a'', ''b''])
        = Some (Inr [SetTagsValue [''a'', ''b''],
                     FormSetValue (Some ''keywords'') (FStrings [''a'', ''b''])
                       ValidateAndDirty])"
    unfolding nt by auto
  from vc ec bc vl el vm em vt et show ?thesis by blast
qed

subsection \<open>The shared state bag\<close>

lemma mapIndexed_renderedField_nth:
  "\<exists>entries. mapIndexed (renderedField state) k formFields = Inr entries
      \<and> length entries = length formFields
      \<and> (\<forall>i < length formFields.
            map_option child (entries ! i) =
            map_option (\<lambda>el. el\<lparr>bound := BoundTo (name (formFields ! i))\<rparr>)
              (renderFormField (formFields ! i) state))"
proof (induction formFields arbitrary: k)
  case Nil
  show ?case by simp
next
  case (Cons f fs)
  from Cons.IH[of "Suc k"] obtain entries where
    e: "mapIndexed (renderedField state) (Suc k) fs = Inr entries"
       "length entries = length fs"
       "\<forall>i < length fs.
            map_option child (entries ! i) =
            map_option (\<lambda>el. el\<lparr>bound := BoundTo (name (fs ! i))\<rparr>)
              (renderFormField (fs ! i) state)"
    by blast
  obtain x where x: "renderedField state k f = Inr x"
     "map_option child x = map_option (\<lambda>el. el\<lparr>bound := BoundTo (name f)\<rparr>) (renderFormField f state)"
    by (simp add: renderedField_eq[of state k f] option.map_comp comp_def)
  have "mapIndexed (renderedField state) k (f # fs) = Inr (x # entries)"
    using e(1) x(1) by simp
  moreover have "\<forall>i < length (f # fs).
            map_option child ((x # entries) ! i) =
            map_option (\<lambda>el. el\<lparr>bound := BoundTo (name ((f # fs) ! i))\<rparr>)
              (renderFormField ((f # fs) ! i) state)"
    using e(3) x(2) by (auto simp: nth_Cons split: nat.splits)
  ultimately show ?case using e(2) by simp
qed

lemma toString_5: "toString 5 = ''5''"
  by code_simp

lemma picks_eq:
  "map itemKey (filter checkShown
     (map (\<lambda>language. \<lparr> itemValue = fst language, itemKey = snd language,
                          onSelect = h language, checkShown = (Some (snd language) = v) \<rparr>) xs))
   = filter (\<lambda>k. Some k = v) (map snd xs)"
  by (induction xs) auto

lemma value_displayed:
  assumes "variant g \<in> {Str ''Combobox'', Str ''Slider''}"
  shows "\<exists>eg. renderFormField g st = Some eg
           \<and> displayed eg =
               Some (if variant g = Str ''Combobox''
                     then ShownPicks (filter (\<lambda>k. Some k = valueS st) (map snd languages))
                     else ShownSelected (orElse (valueS st) ''5''))"
  using assms
  by (auto simp: renderFormField_def caseCombobox_def caseSlider_def formItem_def displayed_def
        picks_eq toString_5 Let_def)

lemma value_written:
  assumes "variant f \<in> {Str ''Combobox'', Str ''Slider''}" and "i < length languages"
  shows "\<exists>ef calls. renderFormField f state = Some ef
           \<and> interact (control ef)
                (if variant f = Str ''Combobox'' then ItemSelect i else SliderChange (n # ns))
               = Some (Inr calls)
           \<and> applyCalls calls state =
               state\<lparr>valueS := Some (if variant f = Str ''Combobox'' then snd (languages ! i)
                                      else toString n)\<rparr>"
  using assms
  by (auto simp: renderFormField_def caseCombobox_def caseSlider_def formItem_def interact_def
        applyCalls_def Let_def)

lemma value_alias:
  assumes "variant f \<in> {Str ''Combobox'', Str ''Slider''}"
    and "variant g \<in> {Str ''Combobox'', Str ''Slider''}" and "i < length languages"
  shows "\<exists>ef eg eg' calls v.
           renderFormField f state = Some ef
         \<and> renderFormField g state = Some eg
         \<and> displayed eg =
               Some (if variant g = Str ''Combobox''
                     then ShownPicks (filter (\<lambda>k. Some k = valueS state) (map snd languages))
                     else ShownSelected (orElse (valueS state) ''5''))
         \<and> interact (control ef)
              (if variant f = Str ''Combobox'' then ItemSelect i else SliderChange (n # ns))
             = Some (Inr calls)
         \<and> v = (if variant f = Str ''Combobox'' then snd (languages ! i) else toString n)
         \<and> renderFormField g (applyCalls calls state) = Some eg'
         \<and> displayed eg' =
               Some (if variant g = Str ''Combobox''
                     then ShownPicks (filter (\<lambda>k. k = v) (map snd languages))
                     else ShownSelected (orElse (Some v) ''5''))"
proof -
  from value_written[OF assms(1,3), of state n ns] obtain ef calls where
    w: "renderFormField f state = Some ef"
       "interact (control ef)
                (if variant f = Str ''Combobox'' then ItemSelect i else SliderChange (n # ns))
               = Some (Inr calls)"
       "applyCalls calls state =
               state\<lparr>valueS := Some (if variant f = Str ''Combobox'' then snd (languages ! i)
                                      else toString n)\<rparr>"
    by blast
  from value_displayed[OF assms(2), of state] obtain eg where
    r: "renderFormField g state = Some eg"
       "displayed eg =
               Some (if variant g = Str ''Combobox''
                     then ShownPicks (filter (\<lambda>k. Some k = valueS state) (map snd languages))
                     else ShownSelected (orElse (valueS state) ''5''))"
    by blast
  from value_displayed[OF assms(2), of "applyCalls calls state"] obtain eg' where
    r': "renderFormField g (applyCalls calls state) = Some eg'"
       "displayed eg' =
               Some (if variant g = Str ''Combobox''
                     then ShownPicks (filter (\<lambda>k. Some k = valueS (applyCalls calls state))
                                        (map snd languages))
                     else ShownSelected (orElse (valueS (applyCalls calls state)) ''5''))"
    by blast
  from r'(2) have "displayed eg' =
               Some (if variant g = Str ''Combobox''
                     then ShownPicks (filter (\<lambda>k. k = (if variant f = Str ''Combobox'' then snd (languages ! i) else toString n)) (map snd languages))
                     else ShownSelected (orElse (Some (if variant f = Str ''Combobox'' then snd (languages ! i) else toString n)) ''5''))"
    unfolding w(3) by simp
  with w r r'(1) show ?thesis by blast
qed

lemma checked_alias:
  assumes "variant f \<in> {Str ''Checkbox'', Str ''Switch''}"
    and "variant g \<in> {Str ''Checkbox'', Str ''Switch''}"
  shows "\<exists>ef eg eg' calls.
           renderFormField f state = Some ef
         \<and> renderFormField g state = Some eg
         \<and> displayed eg = Some (ShownChecked (checked state))
         \<and> interact (control ef) (CheckedChange b) = Some (Inr calls)
         \<and> renderFormField g (applyCalls calls state) = Some eg'
         \<and> displayed eg' = Some (ShownChecked (\<not> checked state))"
  using assms
  by (auto simp: renderFormField_def caseCheckbox_def caseSwitch_def formItem_def interact_def
        displayed_def applyCalls_def)

lemma date_alias:
  assumes "variant f = Str ''Date Picker''" and "variant g = Str ''Date Picker''"
  shows "\<exists>ef eg eg' calls.
           renderFormField f state = Some ef
         \<and> renderFormField g state = Some eg
         \<and> displayed eg = Some (ShownDate (date state))
         \<and> interact (control ef) (DateSelect d) = Some (Inr calls)
         \<and> renderFormField g (applyCalls calls state) = Some eg'
         \<and> displayed eg' = Some (ShownDate d)"
  using assms
  by (simp add: renderFormField_def caseDatePicker_def formItem_def interact_def
        displayed_def applyCalls_def)

lemma datetime_alias:
  assumes "variant f = Str ''Datetime Picker''" and "variant g = Str ''Datetime Picker''"
  shows "\<exists>ef eg eg' calls.
           renderFormField f state = Some ef
         \<and> renderFormField g state = Some eg
         \<and> displayed eg = Some (ShownDatetime (datetime state))
         \<and> interact (control ef) (DatetimeChange (Some t)) = Some (Inr calls)
         \<and> renderFormField g (applyCalls calls state) = Some eg'
         \<and> displayed eg' = Some (ShownDatetime (Some t))"
  using assms
  by (simp add: renderFormField_def caseDatetimePicker_def formItem_def interact_def
        displayed_def applyCalls_def)

lemma files_alias:
  assumes "variant f = Str ''File Input''" and "variant g = Str ''File Input''"
  shows "\<exists>ef eg eg' calls.
           renderFormField f state = Some ef
         \<and> renderFormField g state = Some eg
         \<and> displayed eg = Some (ShownFiles (files state))
         \<and> interact (control ef) (FilesChange fs) = Some (Inr calls)
         \<and> renderFormField g (applyCalls calls state) = Some eg'
         \<and> displayed eg' = Some (ShownFiles fs)"
  using assms
  by (simp add: renderFormField_def caseFileInput_def formItem_def interact_def
        displayed_def applyCalls_def)

lemma selectedValues_alias:
  assumes "variant f = Str ''Multi Select''" and "variant g = Str ''Multi Select''"
  shows "\<exists>ef eg eg' calls.
           renderFormField f state = Some ef
         \<and> renderFormField g state = Some eg
         \<and> displayed eg = Some (ShownValues (selectedValues state))
         \<and> interact (control ef) (ValuesChange vs) = Some (Inr calls)
         \<and> renderFormField g (applyCalls calls state) = Some eg'
         \<and> displayed eg' = Some (ShownValues vs)"
  using assms
  by (simp add: renderFormField_def caseMultiSelect_def formItem_def interact_def
        displayed_def applyCalls_def)

lemma smartDatetime_alias:
  assumes "variant f = Str ''Smart Datetime Input''" and "variant g = Str ''Smart Datetime Input''"
  shows "\<exists>ef eg eg' calls.
           renderFormField f state = Some ef
         \<and> renderFormField g state = Some eg
         \<and> displayed eg = Some (ShownSmartDatetime (smartDatetime state))
         \<and> interact (control ef) (SmartDatetimeChange t) = Some (Inr calls)
         \<and> renderFormField g (applyCalls calls state) = Some eg'
         \<and> displayed eg' = Some (ShownSmartDatetime (Some t))"
  using assms
  by (simp add: renderFormField_def caseSmartDatetimeInput_def formItem_def interact_def
        displayed_def applyCalls_def)

lemma tags_alias:
  assumes "variant f = Str ''Tags Input''" and "variant g = Str ''Tags Input''"
  shows "\<exists>ef eg eg' calls.
           renderFormField f state = Some ef
         \<and> renderFormField g state = Some eg
         \<and> displayed eg = Some (ShownTags (tagsValue state))
         \<and> interact (control ef) (TagsChange ts) = Some (Inr calls)
         \<and> renderFormField g (applyCalls calls state) = Some eg'
         \<and> displayed eg' = Some (ShownTags ts)"
  using assms
  by (simp add: renderFormField_def caseTagsInput_def formItem_def interact_def
        displayed_def applyCalls_def)

lemma location_alias:
  assumes "variant f = Str ''Location Input''" and "variant g = Str ''Location Input''"
  shows "\<exists>ef eg' calls.
           renderFormField f state = Some ef
         \<and> interact (control ef) (CountryChange country) = Some (Inr calls)
         \<and> renderFormField g (applyCalls calls state) = Some eg'
         \<and> interact (control eg') (StateChange stateData)
             = Some (Inr [SetStateName (orElse stateData []),
                          FormSetValue (name g)
                            (FStrings [orElse country [], orElse stateData []]) NoOptions])"
    and "\<exists>ef eg' calls.
           renderFormField f state = Some ef
         \<and> interact (control ef) (StateChange stateData) = Some (Inr calls)
         \<and> renderFormField g (applyCalls calls state) = Some eg'
         \<and> interact (control eg') (CountryChange country)
             = Some (Inr [SetCountryName (orElse country []),
                          FormSetValue (name g)
                            (FStrings [orElse country [], orElse stateData []]) NoOptions])"
  using assms
  by (simp_all add: renderFormField_def caseLocationInput_def formItem_def interact_def
        applyCalls_def orElse_def)

lemma canvas_shared:
  assumes "variant f = Str ''Signature Input''" and "variant g = Str ''Signature Input''"
  shows "\<exists>ef eg. renderFormField f state = Some ef \<and> renderFormField g state = Some eg
           \<and> displayed ef = Some (ShownCanvas (canvasRef state))
           \<and> displayed eg = Some (ShownCanvas (canvasRef state))"
  using assms
  by (simp add: renderFormField_def caseSignatureInput_def formItem_def displayed_def)

lemma displayed_bound: "displayed (el\<lparr>bound := b\<rparr>) = displayed el"
  by (cases "control el") (simp_all add: displayed_def)

text \<open>
  Claim C3: within one \<^verbatim>\<open>FormRenderer\<close>, every call of \<^verbatim>\<open>renderFormField\<close>
  receives the same state bag (one checked flag, one text value, one date, one tag list
  and so on for the whole form), so that two fields that use the same slot read and write
  the very same slot.

  First conjunct: the control of every entry of the rendered list is the dispatcher's
  result for that field under the one bag \<open>state\<close>. The other conjuncts take any two
  fields \<open>f\<close> and \<open>g\<close> and one slot each: \<open>g\<close> displays the slot's value in
  \<open>state\<close>, and after an interaction with \<open>f\<close>, with the calls of its handler applied
  to the component's state, \<open>g\<close> displays what \<open>f\<close>'s handler wrote. The slots are
  \<^verbatim>\<open>checked\<close> (Checkbox, Switch), \<^verbatim>\<open>value\<close> (Combobox, Slider),
  \<^verbatim>\<open>date\<close> (Date Picker), \<^verbatim>\<open>datetime\<close> (Datetime Picker),
  \<^verbatim>\<open>files\<close> (File Input), \<^verbatim>\<open>selectedValues\<close> (Multi Select),
  \<^verbatim>\<open>smartDatetime\<close> (Smart Datetime Input) and \<^verbatim>\<open>tagsValue\<close> (Tags Input).
  For two Location Inputs, the country chosen in \<open>f\<close> is the country that \<open>g\<close> writes
  to the form when its state changes, and likewise with country and state exchanged. Two
  Signature Inputs hold the same canvas handle.
\<close>

theorem shared_state_bag_aliases:
  "(\<exists>entries. renderedFields state formFields = Inr entries
      \<and> length entries = length formFields
      \<and> (\<forall>i < length formFields.
            map_option child (entries ! i) =
            map_option (\<lambda>el. el\<lparr>bound := BoundTo (name (formFields ! i))\<rparr>)
              (renderFormField (formFields ! i) state)))
   \<and> (variant f \<in> {Str ''Checkbox'', Str ''Switch''}
        \<and> variant g \<in> {Str ''Checkbox'', Str ''Switch''} \<longrightarrow>
       (\<exists>ef eg eg' calls.
           renderFormField f state = Some ef
         \<and> renderFormField g state = Some eg
         \<and> displayed eg = Some (ShownChecked (checked state))
         \<and> interact (control ef) (CheckedChange b) = Some (Inr calls)
         \<and> renderFormField g (applyCalls calls state) = Some eg'
         \<and> displayed eg' = Some (ShownChecked (\<not> checked state))))
   \<and> (variant f \<in> {Str ''Combobox'', Str ''Slider''}
        \<and> variant g \<in> {Str ''Combobox'', Str ''Slider''} \<and> i < length languages \<longrightarrow>
       (\<exists>ef eg eg' calls v.
           renderFormField f state = Some ef
         \<and> renderFormField g state = Some eg
         \<and> displayed eg =
               Some (if variant g = Str ''Combobox''
                     then ShownPicks (filter (\<lambda>k. Some k = valueS state) (map snd languages))
                     else ShownSelected (orElse (valueS state) ''5''))
         \<and> interact (control ef)
              (if variant f = Str ''Combobox'' then ItemSelect i else SliderChange (n # ns))
             = Some (Inr calls)
         \<and> v = (if variant f = Str ''Combobox'' then snd (languages ! i) else toString n)
         \<and> renderFormField g (applyCalls calls state) = Some eg'
         \<and> displayed eg' =
               Some (if variant g = Str ''Combobox''
                     then ShownPicks (filter (\<lambda>k. k = v) (map snd languages))
                     else ShownSelected (orElse (Some v) ''5''))))
   \<and> (variant f = Str ''Date Picker'' \<and> variant g = Str ''Date Picker'' \<longrightarrow>
       (\<exists>ef eg eg' calls.
           renderFormField f state = Some ef
         \<and> renderFormField g state = Some eg
         \<and> displayed eg = Some (ShownDate (date state))
         \<and> interact (control ef) (DateSelect d) = Some (Inr calls)
         \<and> renderFormField g (applyCalls calls state) = Some eg'
         \<and> displayed eg' = Some (ShownDate d)))
   \<and> (variant f = Str ''Datetime Picker'' \<and> variant g = Str ''Datetime Picker'' \<longrightarrow>
       (\<exists>ef eg eg' calls.
           renderFormField f state = Some ef
         \<and> renderFormField g state = Some eg
         \<and> displayed eg = Some (ShownDatetime (datetime state))
         \<and> interact (control ef) (DatetimeChange (Some t)) = Some (Inr calls)
         \<and> renderFormField g (applyCalls calls state) = Some eg'
         \<and> displayed eg' = Some (ShownDatetime (Some t))))
   \<and> (variant f = Str ''File Input'' \<and> variant g = Str ''File Input'' \<longrightarrow>
       (\<exists>ef eg eg' calls.
           renderFormField f state = Some ef
         \<and> renderFormField g state = Some eg
         \<and> displayed eg = Some (ShownFiles (files state))
         \<and> interact (control ef) (FilesChange fs) = Some (Inr calls)
         \<and> renderFormField g (applyCalls calls state) = Some eg'
         \<and> displayed eg' = Some (ShownFiles fs)))
   \<and> (variant f = Str ''Multi Select'' \<and> variant g = Str ''Multi Select'' \<longrightarrow>
       (\<exists>ef eg eg' calls.
           renderFormField f state = Some ef
         \<and> renderFormField g state = Some eg
         \<and> displayed eg = Some (ShownValues (selectedValues state))
         \<and> interact (control ef) (ValuesChange vs) = Some (Inr calls)
         \<and> renderFormField g (applyCalls calls state) = Some eg'
         \<and> displayed eg' = Some (ShownValues vs)))
   \<and> (variant f = Str ''Smart Datetime Input'' \<and> variant g = Str ''Smart Datetime Input'' \<longrightarrow>
       (\<exists>ef eg eg' calls.
           renderFormField f state = Some ef
         \<and> renderFormField g state = Some eg
         \<and> displayed eg = Some (ShownSmartDatetime (smartDatetime state))
         \<and> interact (control ef) (SmartDatetimeChange t) = Some (Inr calls)
         \<and> renderFormField g (applyCalls calls state) = Some eg'
         \<and> displayed eg' = Some (ShownSmartDatetime (Some t))))
   \<and> (variant f = Str ''Tags Input'' \<and> variant g = Str ''Tags Input'' \<longrightarrow>
       (\<exists>ef eg eg' calls.
           renderFormField f state = Some ef
         \<and> renderFormField g state = Some eg
         \<and> displayed eg = Some (ShownTags (tagsValue state))
         \<and> interact (control ef) (TagsChange ts) = Some (Inr calls)
         \<and> renderFormField g (applyCalls calls state) = Some eg'
         \<and> displayed eg' = Some (ShownTags ts)))
   \<and> (variant f = Str ''Location Input'' \<and> variant g = Str ''Location Input'' \<longrightarrow>
       (\<exists>ef eg' calls.
           renderFormField f state = Some ef
         \<and> interact (control ef) (CountryChange country) = Some (Inr calls)
         \<and> renderFormField g (applyCalls calls state) = Some eg'
         \<and> interact (control eg') (StateChange stateData)
             = Some (Inr [SetStateName (orElse stateData []),
                          FormSetValue (name g)
                            (FStrings [orElse country [], orElse stateData []]) NoOptions]))
     \<and> (\<exists>ef eg' calls.
           renderFormField f state = Some ef
         \<and> interact (control ef) (StateChange stateData) = Some (Inr calls)
         \<and> renderFormField g (applyCalls calls state) = Some eg'
         \<and> interact (control eg') (CountryChange country)
             = Some (Inr [SetCountryName (orElse country []),
                          FormSetValue (name g)
                            (FStrings [orElse country [], orElse stateData []]) NoOptions])))
   \<and> (variant f = Str ''Signature Input'' \<and> variant g = Str ''Signature Input'' \<longrightarrow>
       (\<exists>ef eg. renderFormField f state = Some ef \<and> renderFormField g state = Some eg
           \<and> displayed ef = Some (ShownCanvas (canvasRef state))
           \<and> displayed eg = Some (ShownCanvas (canvasRef state))))"
proof -
  have c1: "\<exists>entries. renderedFields state formFields = Inr entries
      \<and> length entries = length formFields
      \<and> (\<forall>i < length formFields.
            map_option child (entries ! i) =
            map_option (\<lambda>el. el\<lparr>bound := BoundTo (name (formFields ! i))\<rparr>)
              (renderFormField (formFields ! i) state))"
    using mapIndexed_renderedField_nth[of state 0 formFields]
    unfolding renderedFields_def by blast
  show ?thesis
    apply (intro conjI impI)
               apply (rule c1)
              apply (elim conjE, erule (1) checked_alias)
             apply (elim conjE, erule (2) value_alias)
            apply (elim conjE, erule (1) date_alias)
           apply (elim conjE, erule (1) datetime_alias)
          apply (elim conjE, erule (1) files_alias)
         apply (elim conjE, erule (1) selectedValues_alias)
        apply (elim conjE, erule (1) smartDatetime_alias)
       apply (elim conjE, erule (1) tags_alias)
      apply (elim conjE, erule (1) location_alias(1))
     apply (elim conjE, erule (1) location_alias(2))
    apply (elim conjE, erule (1) canvas_shared)
    done
qed

theorem shared_state_bag_aliases_witness:
  "variant (sampleField ''Checkbox'' ''subscribe'') \<in> {Str ''Checkbox'', Str ''Switch''}
   \<and> variant (sampleField ''Switch'' ''darkMode'') \<in> {Str ''Checkbox'', Str ''Switch''}
   \<and> variant (sampleField ''Tags Input'' ''keywords'') = Str ''Tags Input''
   \<and> variant (sampleField ''Tags Input'' ''labels'') = Str ''Tags Input''
   \<and> (\<exists>entries ef calls entries' c.
         renderedFields previewBag
           [sampleField ''Checkbox'' ''subscribe'', sampleField ''Switch'' ''darkMode'',
            sampleField ''Tags Input'' ''keywords'', sampleField ''Tags Input'' ''labels'']
           = Inr entries
       \<and> length entries = 4
       \<and> renderFormField (sampleField ''Checkbox'' ''subscribe'') previewBag = Some ef
       \<and> interact (control ef) (CheckedChange True) = Some (Inr calls)
       \<and> renderedFields (applyCalls calls previewBag)
           [sampleField ''Checkbox'' ''subscribe'', sampleField ''Switch'' ''darkMode'',
            sampleField ''Tags Input'' ''keywords'', sampleField ''Tags Input'' ''labels'']
           = Inr entries'
       \<and> map_option child (entries' ! 1) = Some c
       \<and> displayed c = Some (ShownChecked True))
   \<and> (\<exists>ef calls entries' c.
         renderFormField (sampleField ''Tags Input'' ''keywords'') previewBag = Some ef
       \<and> interact (control ef) (TagsChange [''a'']) = Some (Inr calls)
       \<and> renderedFields (applyCalls calls previewBag)
           [sampleField ''Checkbox'' ''subscribe'', sampleField ''Switch'' ''darkMode'',
            sampleField ''Tags Input'' ''keywords'', sampleField ''Tags Input'' ''labels'']
           = Inr entries'
       \<and> map_option child (entries' ! 3) = Some c
       \<and> displayed c = Some (ShownTags [''a'']))"
proof -
  let ?cb = "sampleField ''Checkbox'' ''subscribe''"
  let ?sw = "sampleField ''Switch'' ''darkMode''"
  let ?t1 = "sampleField ''Tags Input'' ''keywords''"
  let ?t2 = "sampleField ''Tags Input'' ''labels''"
  let ?form = "[?cb, ?sw, ?t1, ?t2]"
  have v: "variant ?cb \<in> {Str ''Checkbox'', Str ''Switch''}"
          "variant ?sw \<in> {Str ''Checkbox'', Str ''Switch''}"
          "variant ?t1 = Str ''Tags Input''" "variant ?t2 = Str ''Tags Input''"
    by (simp_all add: sampleField_def)
  have c: "checked previewBag = False"
    by (simp add: previewBag_def)
  note th = shared_state_bag_aliases[where formFields = ?form]
  from th[where state = previewBag, THEN conjunct1]
  obtain entries where e: "renderedFields previewBag ?form = Inr entries" "length entries = 4"
    by auto
  from th[where state = previewBag and f = ?cb and g = ?sw and b = True,
          THEN conjunct2, THEN conjunct1] v(1,2)
  obtain ef eg' calls where
    a: "renderFormField ?cb previewBag = Some ef"
       "interact (control ef) (CheckedChange True) = Some (Inr calls)"
       "renderFormField ?sw (applyCalls calls previewBag) = Some eg'"
       "displayed eg' = Some (ShownChecked True)"
    unfolding c by auto
  from th[where state = "applyCalls calls previewBag", THEN conjunct1]
  obtain entries' where
    e': "renderedFields (applyCalls calls previewBag) ?form = Inr entries'"
        "\<forall>i < length ?form.
            map_option child (entries' ! i) =
            map_option (\<lambda>el. el\<lparr>bound := BoundTo (name (?form ! i))\<rparr>)
              (renderFormField (?form ! i) (applyCalls calls previewBag))"
    by blast
  from e'(2) have "map_option child (entries' ! 1)
      = map_option (\<lambda>el. el\<lparr>bound := BoundTo (name ?sw)\<rparr>)
          (renderFormField ?sw (applyCalls calls previewBag))"
    by (auto dest: spec[of _ 1])
  then have c1: "map_option child (entries' ! 1) = Some (eg'\<lparr>bound := BoundTo (name ?sw)\<rparr>)"
    unfolding a(3) by simp
  have d1: "displayed (eg'\<lparr>bound := BoundTo (name ?sw)\<rparr>) = Some (ShownChecked True)"
    unfolding displayed_bound by (rule a(4))
  from th[where state = previewBag and f = ?t1 and g = ?t2 and ts = "[''a'']",
          THEN conjunct2, THEN conjunct2, THEN conjunct2, THEN conjunct2, THEN conjunct2,
          THEN conjunct2, THEN conjunct2, THEN conjunct2, THEN conjunct1] v(3,4)
  obtain tf tg' calls2 where
    b: "renderFormField ?t1 previewBag = Some tf"
       "interact (control tf) (TagsChange [''a'']) = Some (Inr calls2)"
       "renderFormField ?t2 (applyCalls calls2 previewBag) = Some tg'"
       "displayed tg' = Some (ShownTags [''a''])"
    by auto
  from th[where state = "applyCalls calls2 previewBag", THEN conjunct1]
  obtain entries2 where
    e2: "renderedFields (applyCalls calls2 previewBag) ?form = Inr entries2"
        "\<forall>i < length ?form.
            map_option child (entries2 ! i) =
            map_option (\<lambda>el. el\<lparr>bound := BoundTo (name (?form ! i))\<rparr>)
              (renderFormField (?form ! i) (applyCalls calls2 previewBag))"
    by blast
  from e2(2) have "map_option child (entries2 ! 3)
      = map_option (\<lambda>el. el\<lparr>bound := BoundTo (name ?t2)\<rparr>)
          (renderFormField ?t2 (applyCalls calls2 previewBag))"
    by (auto dest: spec[of _ 3])
  then have c2: "map_option child (entries2 ! 3) = Some (tg'\<lparr>bound := BoundTo (name ?t2)\<rparr>)"
    unfolding b(3) by simp
  have d2: "displayed (tg'\<lparr>bound := BoundTo (name ?t2)\<rparr>) = Some (ShownTags [''a''])"
    unfolding displayed_bound by (rule b(4))
  from v e a(1,2) e'(1) c1 d1 b(1,2) e2(1) c2 d2 show ?thesis by blast
qed

subsection \<open>Column spans\<close>

lemma mapIndexed_groupMember:
  "mapIndexed (groupMember span) k g = Inr cells \<Longrightarrow>
     length cells = length g \<and> (\<forall>c \<in> set cells. colSpanClass c = Some span)"
proof (induction g arbitrary: k cells)
  case Nil
  then show ?case by auto
next
  case (Cons f fs)
  then show ?case
    by (auto simp: groupMember_def split: sum.splits)
qed

text \<open>
  Claim C4, as stated: on the twelve-column grid each member of a group of two spans
  half of the row and each member of a group of any other size spans a quarter of it. It
  fails for a group of three: each member spans 4 columns, and four times that is not
  the row.
\<close>

theorem group_of_three_spans_a_third:
  "map_sum id (map rowSpans)
     (renderFormFields
        [Group [sampleField ''Input'' ''first'', sampleField ''Input'' ''middle'',
                sampleField ''Input'' ''last'']])
     = Inr [[Some 4, Some 4, Some 4]]
   \<and> 4 * colSpan [sampleField ''Input'' ''first'', sampleField ''Input'' ''middle'',
                  sampleField ''Input'' ''last''] \<noteq> 12"
  by (simp add: renderFormFields_def renderRow_def groupMember_def cloneElement_def
        renderFormField_def sampleField_def caseInput_def colSpan_def rowSpans_def)

text \<open>
  Claim C4, amended: a group that renders gives one grid row with one cell per member;
  each cell of a group of two spans 6 of the 12 columns (half of the row) and each cell
  of a group of any other size spans 4 of the 12 columns (a third of the row).
\<close>

theorem group_column_spans:
  assumes "renderRow index (Group g) = Inr r"
  shows "\<exists>cells. r = GridRow index cells \<and> length cells = length g
           \<and> (\<forall>c \<in> set cells. colSpanClass c = Some (colSpan g))
           \<and> colSpan g = (if length g = 2 then 6 else 4)
           \<and> (length g = 2 \<longrightarrow> 2 * colSpan g = 12)
           \<and> (length g \<noteq> 2 \<longrightarrow> 3 * colSpan g = 12)"
  using assms mapIndexed_groupMember[of "colSpan g" 0 g]
  by (auto simp: renderRow_def colSpan_def split: sum.splits)

theorem group_column_spans_witness:
  "\<exists>r. renderRow 0 (Group [sampleField ''Input'' ''email'', sampleField ''Checkbox'' ''subscribe''])
          = Inr r
      \<and> rowSpans r = [Some 6, Some 6]
      \<and> 2 * colSpan [sampleField ''Input'' ''email'', sampleField ''Checkbox'' ''subscribe''] = 12"
proof -
  let ?g = "[sampleField ''Input'' ''email'', sampleField ''Checkbox'' ''subscribe'']"
  obtain r where r: "renderRow 0 (Group ?g) = Inr r"
    by (simp add: renderRow_def groupMember_def cloneElement_def renderFormField_def
          sampleField_def)
  from group_column_spans[OF r] obtain cells where
    c: "r = GridRow 0 cells" "length cells = 2"
       "\<forall>c \<in> set cells. colSpanClass c = Some (colSpan ?g)"
       "colSpan ?g = 6"
    by auto
  from c(2) obtain a b where ab: "cells = [a, b]"
    by (cases cells; cases "tl cells"; auto)
  have "rowSpans r = [Some 6, Some 6]"
    using c(1,3,4) ab by (simp add: rowSpans_def)
  with r c(4) show ?thesis by simp
qed

subsection \<open>Choice controls\<close>

text \<open>
  Claim C5, as stated: a Select, Multi Select or Combobox field without options is
  rendered with an empty option set, its choices being drawn from the field's own
  options. It fails for a Select field whose options are absent: the control is rendered
  and offers three e-mail addresses.
\<close>

theorem select_ignores_options:
  "renderFormField ((sampleField ''Select'' ''country'')\<lparr>options := None\<rparr>) previewBag
     = Some (caseSelect ((sampleField ''Select'' ''country'')\<lparr>options := None\<rparr>) previewBag)
   \<and> choices (control (caseSelect ((sampleField ''Select'' ''country'')\<lparr>options := None\<rparr>) previewBag))
     = Some [''m@example.com'', ''m@google.com'', ''m@support.com'']"
  by (simp add: renderFormField_def sampleField_def caseSelect_def formItem_def choices_def)

text \<open>
  Claim C5, amended: for every Select, Multi Select or Combobox field, whatever its
  options (absent, empty or not), the dispatcher renders the control, and the choices it
  offers are fixed in the code: three e-mail addresses for Select, React, Vue and Svelte
  for Multi Select, and the values of the module's \<^verbatim>\<open>languages\<close> for Combobox.
\<close>

theorem choice_controls_fixed_choices:
  assumes "variant field \<in> {Str ''Select'', Str ''Multi Select'', Str ''Combobox''}"
  shows "\<exists>el. renderFormField (field\<lparr>options := opts\<rparr>) state = Some el
           \<and> choices (control el) =
               Some (if variant field = Str ''Select''
                       then [''m@example.com'', ''m@google.com'', ''m@support.com'']
                     else if variant field = Str ''Multi Select''
                       then [''React'', ''Vue'', ''Svelte'']
                     else map snd languages)"
  using assms
  by (auto simp: renderFormField_def caseSelect_def caseMultiSelect_def caseCombobox_def
        formItem_def choices_def comp_def)

theorem choice_controls_fixed_choices_witness:
  "variant (sampleField ''Multi Select'' ''skills'')
     \<in> {Str ''Select'', Str ''Multi Select'', Str ''Combobox''}
   \<and> (\<exists>el. renderFormField ((sampleField ''Multi Select'' ''skills'')\<lparr>options := Some []\<rparr>) previewBag
              = Some el
          \<and> choices (control el) = Some [''React'', ''Vue'', ''Svelte''])"
proof -
  have v: "variant (sampleField ''Multi Select'' ''skills'')
             \<in> {Str ''Select'', Str ''Multi Select'', Str ''Combobox''}"
    by (simp add: sampleField_def)
  have m: "variant (sampleField ''Multi Select'' ''skills'') = Str ''Multi Select''"
    by (simp add: sampleField_def)
  from choice_controls_fixed_choices[OF v, of "Some []" previewBag] v
  show ?thesis unfolding m by simp
qed

subsection \<open>The JSON editor\<close>

text \<open>
  Claim C6: when the editor's text fails to parse as JSON, on a change of the text or on
  Refresh, the form definition handed to the renderer stays what it was and the error
  ``Invalid JSON format'' is shown. On a change only the stored text and the error
  change; on Refresh only the error changes and an error toast with the same message is
  shown; the key of the renderer stays, so it is not mounted again.
\<close>

theorem invalid_json_keeps_formData:
  "(parse v = None \<longrightarrow>
      formData (handleJsonChange parse v s) = formData s
    \<and> error (handleJsonChange parse v s) = ''Invalid JSON format''
    \<and> key (handleJsonChange parse v s) = key s
    \<and> toasts (handleJsonChange parse v s) = toasts s
    \<and> jsonValue (handleJsonChange parse v s) = v)
   \<and> (parse (jsonValue s) = None \<longrightarrow>
      formData (handleRefresh parse s) = formData s
    \<and> error (handleRefresh parse s) = ''Invalid JSON format''
    \<and> key (handleRefresh parse s) = key s
    \<and> jsonValue (handleRefresh parse s) = jsonValue s
    \<and> toasts (handleRefresh parse s)
        = toasts s @ [ToastError ''Failed to refresh form: Invalid JSON format''])"
  by (simp add: handleJsonChange_def handleRefresh_def)

theorem invalid_json_keeps_formData_witness:
  "sampleParse ''{'' = None
   \<and> formData (handleJsonChange sampleParse ''{'' sampleBuilder)
       = [sampleJson ''text'' ''fullName'']
   \<and> error (handleJsonChange sampleParse ''{'' sampleBuilder) = ''Invalid JSON format''
   \<and> sampleParse (jsonValue (handleJsonChange sampleParse ''{'' sampleBuilder)) = None
   \<and> formData (handleRefresh sampleParse (handleJsonChange sampleParse ''{'' sampleBuilder))
       = [sampleJson ''text'' ''fullName'']
   \<and> error (handleRefresh sampleParse (handleJsonChange sampleParse ''{'' sampleBuilder))
       = ''Invalid JSON format''"
proof -
  let ?s = "handleJsonChange sampleParse ''{'' sampleBuilder"
  have p: "sampleParse ''{'' = None"
    by (simp add: sampleParse_def)
  have f0: "formData sampleBuilder = [sampleJson ''text'' ''fullName'']"
    by (simp add: sampleBuilder_def)
  from invalid_json_keeps_formData[of sampleParse "''{''" sampleBuilder] p
  have c: "formData ?s = formData sampleBuilder" "error ?s = ''Invalid JSON format''"
          "jsonValue ?s = ''{''"
    by simp_all
  have q: "sampleParse (jsonValue ?s) = None"
    unfolding c(3) by (rule p)
  from invalid_json_keeps_formData[of sampleParse "''{''" ?s] q
  have r: "formData (handleRefresh sampleParse ?s) = formData ?s"
          "error (handleRefresh sampleParse ?s) = ''Invalid JSON format''"
    by simp_all
  from p c q r f0 show ?thesis by simp
qed

subsection \<open>The converter of JSON fields\<close>

lemma convert_variant_eq:
  assumes "json_type jsonField = Some t"
  shows "\<exists>field. convertJsonFieldToFormField jsonField = Inr field
           \<and> variant field =
               (case map_of typeToVariant t of
                  Some v \<Rightarrow> Str v
                | None \<Rightarrow> if t \<in> set objectPrototypeKeys then Inherited t else Str (capitalize t))"
  using assms
  by (simp add: convertJsonFieldToFormField_def typeToVariant_lookup_def split: option.splits)

lemma hyphenatedTypes_cases:
  assumes "t \<in> set hyphenatedTypes"
  shows "t = ''multi-select'' \<or> t = ''tags-input'' \<or> t = ''input-otp'' \<or> t = ''smart-datetime''
       \<or> t = ''signature-input'' \<or> t = ''location-input'' \<or> t = ''date-picker''
       \<or> t = ''datetime-picker''"
  using assms by (simp add: hyphenatedTypes_def)

lemma hyphenated_not_in_table:
  assumes "t \<in> set hyphenatedTypes"
  shows "map_of typeToVariant t = None"
  using hyphenatedTypes_cases[OF assms]
  by (elim disjE; simp add: typeToVariant_def)

lemma hyphenated_not_inherited:
  assumes "t \<in> set hyphenatedTypes"
  shows "t \<notin> set objectPrototypeKeys"
  using hyphenatedTypes_cases[OF assms]
  by (elim disjE; simp add: objectPrototypeKeys_def)

lemma hyphenated_capitalize:
  assumes "t \<in> set hyphenatedTypes"
  shows "capitalize t \<notin> set recognized"
  using hyphenatedTypes_cases[OF assms]
  by (elim disjE; simp add: capitalize_def toUpperCase_char_def recognized_def)

lemma hyphenated_omitted:
  assumes "json_type jsonField = Some t" and "t \<in> set hyphenatedTypes"
    and "convertJsonFieldToFormField jsonField = Inr field"
  shows "variant field = Str (capitalize t) \<and> renderFormField field state = None
       \<and> FormRenderer state [jsonField] = Inr [None]"
proof -
  from convert_variant_eq[OF assms(1)] assms(3)
  have v: "variant field = Str (capitalize t)"
    using hyphenated_not_in_table[OF assms(2)] hyphenated_not_inherited[OF assms(2)] by simp
  then have n: "renderFormField field state = None"
    using renderFormField_unrecognized[of field state] hyphenated_capitalize[OF assms(2)] by auto
  then have "FormRenderer state [jsonField] = Inr [None]"
    using assms(3) by (simp add: FormRenderer_def renderedFields_def renderedField_def)
  with v n show ?thesis by simp
qed

text \<open>
  Claim C8, as stated: the converter maps the type through a table of nine entries, and
  every type that the table lacks becomes the type with its first letter in upper case.
  The table has ten entries, and the type ``constructor'', which is not among them, does
  not become ``Constructor'': the lookup finds the member of that name that the table
  inherits from \<^verbatim>\<open>Object.prototype\<close>, and the variant is that member.
\<close>

theorem typeToVariant_ten_entries:
  "length typeToVariant = 10
   \<and> length typeToVariant \<noteq> 9
   \<and> map_of typeToVariant ''constructor'' = None
   \<and> map_sum id variant (convertJsonFieldToFormField (sampleJson ''constructor'' ''c''))
       = Inr (Inherited ''constructor'')
   \<and> map_sum id variant (convertJsonFieldToFormField (sampleJson ''constructor'' ''c''))
       \<noteq> Inr (Str ''Constructor'')"
  by (simp add: typeToVariant_def convertJsonFieldToFormField_def sampleJson_def
        typeToVariant_lookup_def objectPrototypeKeys_def)

text \<open>
  Claim C8, amended: the converter maps a JSON field's type string through a fixed table
  of ten entries (``text'' and ``email'' to Input, ``file'' to File Input, ``date'' to
  Date Picker, ``datetime'' to Datetime Picker, and so on). A type that is neither a key
  of the table nor the name of a member inherited from \<^verbatim>\<open>Object.prototype\<close> becomes
  the type string with only its first letter in upper case. So for each of the eight
  hyphenated types the variant (Multi-select, Tags-input, ...) matches no case of
  \<^verbatim>\<open>renderFormField\<close>, and \<^verbatim>\<open>FormRenderer\<close> renders nothing for the field.
\<close>

theorem convertJsonFieldToFormField_variant:
  "length typeToVariant = 10
   \<and> map (map_of typeToVariant) [''text'', ''email'', ''file'', ''date'', ''datetime'']
       = [Some ''Input'', Some ''Input'', Some ''File Input'', Some ''Date Picker'',
          Some ''Datetime Picker'']
   \<and> map capitalize hyphenatedTypes
       = [''Multi-select'', ''Tags-input'', ''Input-otp'', ''Smart-datetime'',
          ''Signature-input'', ''Location-input'', ''Date-picker'', ''Datetime-picker'']
   \<and> (json_type jsonField = Some t \<longrightarrow>
        (\<exists>field. convertJsonFieldToFormField jsonField = Inr field
           \<and> variant field =
               (case map_of typeToVariant t of
                  Some v \<Rightarrow> Str v
                | None \<Rightarrow> if t \<in> set objectPrototypeKeys then Inherited t else Str (capitalize t))
           \<and> (t \<in> set hyphenatedTypes \<longrightarrow>
                 variant field = Str (capitalize t)
               \<and> renderFormField field state = None
               \<and> FormRenderer state [jsonField] = Inr [None]
               \<and> mounted [None :: formField option] = [])))"
proof -
  have a: "length typeToVariant = 10"
    by (simp add: typeToVariant_def)
  have b: "map (map_of typeToVariant) [''text'', ''email'', ''file'', ''date'', ''datetime'']
       = [Some ''Input'', Some ''Input'', Some ''File Input'', Some ''Date Picker'',
          Some ''Datetime Picker'']"
    by (simp add: typeToVariant_def)
  have c: "map capitalize hyphenatedTypes
       = [''Multi-select'', ''Tags-input'', ''Input-otp'', ''Smart-datetime'',
          ''Signature-input'', ''Location-input'', ''Date-picker'', ''Datetime-picker'']"
    by (simp add: hyphenatedTypes_def capitalize_def toUpperCase_char_def)
  have m: "mounted [None :: formField option] = []"
    by (simp add: mounted_def map_filter_simps)
  have d: "\<exists>field. convertJsonFieldToFormField jsonField = Inr field
           \<and> variant field =
               (case map_of typeToVariant t of
                  Some v \<Rightarrow> Str v
                | None \<Rightarrow> if t \<in> set objectPrototypeKeys then Inherited t else Str (capitalize t))
           \<and> (t \<in> set hyphenatedTypes \<longrightarrow>
                 variant field = Str (capitalize t)
               \<and> renderFormField field state = None
               \<and> FormRenderer state [jsonField] = Inr [None]
               \<and> mounted [None :: formField option] = [])"
    if h: "json_type jsonField = Some t"
  proof -
    from convert_variant_eq[OF h] obtain field where
      f: "convertJsonFieldToFormField jsonField = Inr field"
         "variant field =
               (case map_of typeToVariant t of
                  Some v \<Rightarrow> Str v
                | None \<Rightarrow> if t \<in> set objectPrototypeKeys then Inherited t else Str (capitalize t))"
      by blast
    show ?thesis
      using f m hyphenated_omitted[OF h _ f(1), of state] by blast
  qed
  from a b c d show ?thesis by blast
qed

theorem convertJsonFieldToFormField_variant_witness:
  "json_type (sampleJson ''multi-select'' ''skills'') = Some ''multi-select''
   \<and> ''multi-select'' \<in> set hyphenatedTypes
   \<and> (\<exists>field. convertJsonFieldToFormField (sampleJson ''multi-select'' ''skills'') = Inr field
         \<and> variant field = Str ''Multi-select''
         \<and> renderFormField field previewBag = None)
   \<and> FormRenderer previewBag [sampleJson ''multi-select'' ''skills''] = Inr [None]"
proof -
  have t: "json_type (sampleJson ''multi-select'' ''skills'') = Some ''multi-select''"
    by (simp add: sampleJson_def)
  have h: "''multi-select'' \<in> set hyphenatedTypes"
    by (simp add: hyphenatedTypes_def)
  have c: "capitalize ''multi-select'' = ''Multi-select''"
    by (simp add: capitalize_def toUpperCase_char_def)
  from convertJsonFieldToFormField_variant[of "sampleJson ''multi-select'' ''skills''"
         "''multi-select''" previewBag] t h
  obtain field where
    "convertJsonFieldToFormField (sampleJson ''multi-select'' ''skills'') = Inr field"
    "variant field = Str (capitalize ''multi-select'')"
    "renderFormField field previewBag = None"
    "FormRenderer previewBag [sampleJson ''multi-select'' ''skills''] = Inr [None]"
    by blast
  with t h show ?thesis unfolding c by blast
qed

subsection \<open>Slider and Input OTP\<close>

text \<open>
  Claim C9: a Slider is mounted with the default value 5 whatever the field's declared
  \<open>defaultValue\<close>, with min 0, max 100 and step 1 where the field has none (and also
  where the declared max or step is 0); its only handler, given the chosen numbers, calls
  only \<^verbatim>\<open>state.setValue\<close> with the decimal string of the first number, which in
  \<^verbatim>\<open>FormRenderer\<close> replaces the shared slot \<^verbatim>\<open>value\<close>; it never calls
  \<^verbatim>\<open>form.setValue\<close>.
\<close>

theorem slider_defaults_and_wiring:
  assumes "variant field = Str ''Slider''"
  shows "\<exists>el h. renderFormField (field\<lparr>defaultValue := dv\<rparr>) state = Some el
           \<and> control el =
               Slider (case minF field of None \<Rightarrow> 0 | Some m \<Rightarrow> m)
                      (case maxF field of None \<Rightarrow> 100 | Some m \<Rightarrow> if m = 0 then 100 else m)
                      (case stepF field of None \<Rightarrow> 1 | Some m \<Rightarrow> if m = 0 then 1 else m)
                      [5] h
           \<and> (\<forall>v vs. interact (control el) (SliderChange (v # vs))
                        = Some (Inr [SetValue (toString v)])
                    \<and> \<not> list_ex (isFormWrite (name field)) [SetValue (toString v)]
                    \<and> applyCalls [SetValue (toString v)] state
                        = state\<lparr>valueS := Some (toString v)\<rparr>)
           \<and> interact (control el) (SliderChange []) = Some (Inl TypeError)
           \<and> (\<forall>ev. (\<forall>vs. ev \<noteq> SliderChange vs) \<longrightarrow> interact (control el) ev = None)"
  using assms
  apply (simp add: renderFormField_def caseSlider_def formItem_def interact_def orNum_def
      isFormWrite_def applyCalls_def Let_def)
  apply (auto split: event.splits option.splits)
  done

theorem slider_defaults_and_wiring_witness:
  "variant ((sampleField ''Slider'' ''price'')\<lparr>maxF := Some 1000, stepF := Some 10\<rparr>) = Str ''Slider''
   \<and> (\<exists>el h. renderFormField
                ((sampleField ''Slider'' ''price'')
                   \<lparr>maxF := Some 1000, stepF := Some 10, defaultValue := Some 500\<rparr>) previewBag
              = Some el
          \<and> control el = Slider 0 1000 10 [5] h
          \<and> interact (control el) (SliderChange [30]) = Some (Inr [SetValue ''30'']))"
proof -
  let ?f = "(sampleField ''Slider'' ''price'')\<lparr>maxF := Some 1000, stepF := Some 10\<rparr>"
  have v: "variant ?f = Str ''Slider''"
    by (simp add: sampleField_def)
  have p: "minF ?f = None" "maxF ?f = Some 1000" "stepF ?f = Some 10"
    by (simp_all add: sampleField_def)
  from slider_defaults_and_wiring[OF v, of "Some 500" previewBag]
  obtain el h where
    "renderFormField (?f\<lparr>defaultValue := Some 500\<rparr>) previewBag = Some el"
    "control el = Slider 0 1000 10 [5] h"
    "interact (control el) (SliderChange [30]) = Some (Inr [SetValue (toString 30)])"
    unfolding p by auto
  with v show ?thesis unfolding toString_30 by blast
qed

text \<open>
  Claim C10: the Input OTP control always has six slots (maxLength 6, a group of three, a
  separator, a group of three) whatever length the field declares, and what the user
  enters is wired to nothing: the control has no handler, and it is the same under every
  state bag.
\<close>

theorem inputOTP_six_slots_unwired:
  assumes "variant field = Str ''Input OTP''"
  shows "\<exists>el. renderFormField (field\<lparr>lengthF := n\<rparr>) state = Some el
           \<and> control el = InputOTP 6 [[0, 1, 2], [3, 4, 5]]
           \<and> length (concat [[0, 1, 2], [3, 4, 5 :: nat]]) = 6
           \<and> (\<forall>ev. interact (control el) ev = None)
           \<and> (\<forall>state'. renderFormField (field\<lparr>lengthF := n\<rparr>) state' = Some el)"
  using assms by (simp add: renderFormField_def caseInputOTP_def formItem_def interact_def)

theorem inputOTP_six_slots_unwired_witness:
  "variant (sampleField ''Input OTP'' ''verificationCode'') = Str ''Input OTP''
   \<and> (\<exists>el. renderFormField ((sampleField ''Input OTP'' ''verificationCode'')\<lparr>lengthF := Some 4\<rparr>)
               previewBag = Some el
          \<and> control el = InputOTP 6 [[0, 1, 2], [3, 4, 5]]
          \<and> interact (control el) (ValueChange ''1234'') = None)"
proof -
  have v: "variant (sampleField ''Input OTP'' ''verificationCode'') = Str ''Input OTP''"
    by (simp add: sampleField_def)
  from inputOTP_six_slots_unwired[OF v, of "Some 4" previewBag] v
  show ?thesis by blast
qed

end
